theory Spec2Isabelle
  imports Complex_Main
begin

section \<open>Python values and errors\<close>

text \<open>
  The trainer of \<^verbatim>\<open>pixelmix_t2_wobest.py\<close> is embedded with explicit state passing.
  Floating-point numbers are read as real numbers; every exception the code can raise on
  the paths embedded here is a constructor of \<open>error\<close>.
\<close>

datatype error =
    ValueError            \<comment> \<open>tuple unpacking with the wrong number of values\<close>
  | RuntimeError          \<comment> \<open>torch: shapes that do not broadcast\<close>
  | TypeError             \<comment> \<open>the loss applied to \<open>None\<close>\<close>
  | IndexError            \<comment> \<open>indexing or reducing an empty dimension\<close>
  | AttributeError        \<comment> \<open>reading \<open>self.best_iter\<close> before it was ever assigned\<close>
  | ZeroDivisionError
  | UnboundLocalError     \<comment> \<open>a loop variable read after a loop that never seen\<close>
  | NotImplementedError
  | FileNotFoundError     \<comment> \<open>\<open>save_image\<close> writing below a directory that does not exist\<close>

text \<open>The result of Python's \<open>**\<close> on floats is a float or, for a negative base with a
  fractional exponent, a complex number.\<close>

datatype pynum = PyFloat real | PyComplex complex

definition py_pow :: "real \<Rightarrow> real \<Rightarrow> error + pynum" where
  "py_pow x p =
     (if p = 0 then Inr (PyFloat 1)
      else if x = 0 then (if p < 0 then Inl ZeroDivisionError else Inr (PyFloat 0))
      else if 0 < x then Inr (PyFloat (x powr p))
      else if p = of_int \<lfloor>p\<rfloor>
        then Inr (PyFloat ((if even \<lfloor>p\<rfloor> then 1 else - 1) * ((- x) powr p)))
      else Inr (PyComplex (Complex ((- x) powr p * cos (pi * p)) ((- x) powr p * sin (pi * p)))))"

definition py_scale :: "real \<Rightarrow> pynum \<Rightarrow> pynum" where
  "py_scale r v = (case v of PyFloat x \<Rightarrow> PyFloat (r * x) | PyComplex z \<Rightarrow> PyComplex (of_real r * z))"

text \<open>\<open>v if a is None else a\<close>\<close>

definition dflt :: "'a \<Rightarrow> 'a option \<Rightarrow> 'a" where
  "dflt v a = (case a of None \<Rightarrow> v | Some w \<Rightarrow> w)"

section \<open>Configuration and optimizer\<close>

record cfg =
  opt_lr :: real
  opt_iterations :: int
  opt_poly_power :: real
  num_target :: nat
  aux :: bool
  lam_aux :: real
  lam_new :: real
  lam_aug :: real
  lam_fourier :: real
  lam_cutmix :: real
  source_fourier :: bool
  pseudobest_threshold :: real
  pseudolabel_threshold :: real
  train_flag :: bool
  resume_from_checkpoint :: bool
  class_16 :: bool
  source_val_iterations :: nat

type_synonym params = "(string \<times> real list) list"

text \<open>An optimizer: the \<open>lr\<close> entry of each parameter group, and the payload of
  \<open>state_dict()\<close> (momentum buffers).\<close>

record optimizer =
  param_groups :: "pynum list"
  opt_state :: params

section \<open>Learning-rate schedule\<close>

text \<open>\<open>Trainer.poly_lr_scheduler\<close>; \<open>self_iter\<close> is \<open>self.iter\<close>. The optimizer is mutated in
  place by the source and returned here; the argument \<open>power\<close> is named \<open>pow\<close>.\<close>

definition poly_lr_scheduler ::
  "cfg \<Rightarrow> nat \<Rightarrow> optimizer \<Rightarrow> real option \<Rightarrow> nat option \<Rightarrow> int option \<Rightarrow> real option
     \<Rightarrow> error + optimizer" where
  "poly_lr_scheduler c self_iter opt init_lr iter max_iter pow =
     (let init_lr = dflt (opt_lr c) init_lr;
          iter = dflt self_iter iter;
          max_iter = dflt (opt_iterations c) max_iter;
          pow = dflt (opt_poly_power c) pow
      in if max_iter = 0 then Inl ZeroDivisionError
         else case py_pow (1 - real iter / real_of_int max_iter) pow of
           Inl e \<Rightarrow> Inl e
         | Inr pw \<Rightarrow>
             (let new_lr = py_scale init_lr pw
              in case param_groups opt of
                   [] \<Rightarrow> Inl IndexError
                 | g # gs \<Rightarrow>
                     (let groups = new_lr # gs
                      in Inr (opt\<lparr>param_groups :=
                                (if length groups = 2 then groups[1 := py_scale 10 new_lr]
                                 else groups)\<rparr>))))"

section \<open>Tensors\<close>

text \<open>
  A tensor of rank \<open>n\<close> is a nested list of depth \<open>n\<close>, outermost dimension first; torch
  tensors are rectangular and batches are not empty, so the size of an inner dimension is
  read off the first element. A rank-2 tensor that meets rank-3 tensors is carried as the
  rank-3 tensor with a leading dimension of size 1, which is how torch's broadcasting reads
  it.
\<close>

type_synonym 'a t3 = "'a list list list"
type_synonym 'a t4 = "'a list list list list"

definition dim1 :: "'a list list \<Rightarrow> nat" where
  "dim1 t = (case t of [] \<Rightarrow> 0 | r # _ \<Rightarrow> length r)"

definition dim2 :: "'a t3 \<Rightarrow> nat" where
  "dim2 t = (case t of [] \<Rightarrow> 0 | r # _ \<Rightarrow> dim1 r)"

definition dim3 :: "'a t4 \<Rightarrow> nat" where
  "dim3 t = (case t of [] \<Rightarrow> 0 | r # _ \<Rightarrow> dim2 r)"

definition shaped3 :: "nat \<Rightarrow> nat \<Rightarrow> nat \<Rightarrow> 'a t3 \<Rightarrow> bool" where
  "shaped3 a b c t =
     (length t = a \<and> (\<forall>p \<in> set t. length p = b \<and> (\<forall>r \<in> set p. length r = c)))"

definition shaped4 :: "nat \<Rightarrow> nat \<Rightarrow> nat \<Rightarrow> nat \<Rightarrow> 'a t4 \<Rightarrow> bool" where
  "shaped4 a b c d t = (length t = a \<and> (\<forall>p \<in> set t. shaped3 b c d p))"

definition tab :: "nat \<Rightarrow> (nat \<Rightarrow> 'a) \<Rightarrow> 'a list" where
  "tab n f = map f [0..<n]"

text \<open>Broadcasting: the sizes of one dimension of three operands agree when each is 1 or
  the common size; an operand of size 1 is read at index 0.\<close>

definition bdim :: "nat \<Rightarrow> nat \<Rightarrow> nat \<Rightarrow> nat option" where
  "bdim a b c =
     (let m = (if a \<noteq> 1 then a else if b \<noteq> 1 then b else c)
      in if (a = 1 \<or> a = m) \<and> (b = 1 \<or> b = m) \<and> (c = 1 \<or> c = m) then Some m else None)"

definition bix :: "nat \<Rightarrow> nat \<Rightarrow> nat" where
  "bix n i = (if n = 1 then 0 else i)"

definition at3 :: "'a t3 \<Rightarrow> nat \<Rightarrow> nat \<Rightarrow> nat \<Rightarrow> 'a" where
  "at3 t i j k = t ! bix (length t) i ! bix (dim1 t) j ! bix (dim2 t) k"

definition at4 :: "'a t4 \<Rightarrow> nat \<Rightarrow> nat \<Rightarrow> nat \<Rightarrow> nat \<Rightarrow> 'a" where
  "at4 t i j k l = t ! bix (length t) i ! bix (dim1 t) j ! bix (dim2 t) k ! bix (dim3 t) l"

text \<open>An elementwise operation on three broadcast operands; \<open>RuntimeError\<close> when the shapes
  do not broadcast.\<close>

definition bcast3 :: "('a \<Rightarrow> 'b \<Rightarrow> 'c \<Rightarrow> 'd) \<Rightarrow> 'a t3 \<Rightarrow> 'b t3 \<Rightarrow> 'c t3 \<Rightarrow> error + 'd t3" where
  "bcast3 f a b c =
     (case (bdim (length a) (length b) (length c), bdim (dim1 a) (dim1 b) (dim1 c),
            bdim (dim2 a) (dim2 b) (dim2 c)) of
        (Some n0, Some n1, Some n2) \<Rightarrow>
          Inr (tab n0 (\<lambda>i. tab n1 (\<lambda>j. tab n2 (\<lambda>k. f (at3 a i j k) (at3 b i j k) (at3 c i j k)))))
      | _ \<Rightarrow> Inl RuntimeError)"

definition bcast4 :: "('a \<Rightarrow> 'b \<Rightarrow> 'c \<Rightarrow> 'd) \<Rightarrow> 'a t4 \<Rightarrow> 'b t4 \<Rightarrow> 'c t4 \<Rightarrow> error + 'd t4" where
  "bcast4 f a b c =
     (case (bdim (length a) (length b) (length c), bdim (dim1 a) (dim1 b) (dim1 c),
            bdim (dim2 a) (dim2 b) (dim2 c), bdim (dim3 a) (dim3 b) (dim3 c)) of
        (Some n0, Some n1, Some n2, Some n3) \<Rightarrow>
          Inr (tab n0 (\<lambda>i. tab n1 (\<lambda>j. tab n2 (\<lambda>k. tab n3 (\<lambda>l.
                 f (at4 a i j k l) (at4 b i j k l) (at4 c i j k l))))))
      | _ \<Rightarrow> Inl RuntimeError)"

text \<open>\<open>torch.where(cond, a, b)\<close>\<close>

definition where3 :: "bool t3 \<Rightarrow> 'a t3 \<Rightarrow> 'a t3 \<Rightarrow> error + 'a t3" where
  "where3 = bcast3 (\<lambda>p u v. if p then u else v)"

definition where4 :: "bool t4 \<Rightarrow> 'a t4 \<Rightarrow> 'a t4 \<Rightarrow> error + 'a t4" where
  "where4 = bcast4 (\<lambda>p u v. if p then u else v)"

text \<open>\<open>t.squeeze(dim=1)\<close> on a rank-3 tensor: a dimension of size 1 is dropped, leaving a
  rank-2 tensor (carried with a leading 1); any other size leaves the tensor as it is.\<close>

definition squeeze_dim1 :: "'a t3 \<Rightarrow> 'a t3" where
  "squeeze_dim1 t = (if dim1 t = 1 then [map hd t] else t)"

text \<open>\<open>t.unsqueeze(0)\<close> and \<open>t.repeat(1, 3, 1, 1)\<close> on a rank-4 tensor: dimension 1 is tiled
  three times.\<close>

definition unsqueeze0 :: "'a \<Rightarrow> 'a list" where
  "unsqueeze0 t = [t]"

definition repeat_1311 :: "'a t4 \<Rightarrow> 'a t4" where
  "repeat_1311 t = map (\<lambda>u. concat (replicate 3 u)) t"

text \<open>\<open>F.softmax(t, dim=1)\<close>, on rank 4 and on rank 3.\<close>

definition softmax_dim1 :: "real t4 \<Rightarrow> real t4" where
  "softmax_dim1 t =
     tab (length t) (\<lambda>b. tab (dim1 t) (\<lambda>k. tab (dim2 t) (\<lambda>h. tab (dim3 t) (\<lambda>w.
       exp (t ! b ! k ! h ! w) / sum_list (tab (dim1 t) (\<lambda>j. exp (t ! b ! j ! h ! w)))))))"

definition softmax3_dim1 :: "real t3 \<Rightarrow> real t3" where
  "softmax3_dim1 t =
     tab (length t) (\<lambda>a. tab (dim1 t) (\<lambda>k. tab (dim2 t) (\<lambda>w.
       exp (t ! a ! k ! w) / sum_list (tab (dim1 t) (\<lambda>j. exp (t ! a ! j ! w))))))"

text \<open>The index of the first maximal value, as \<open>torch.argmax\<close> and \<open>torch.max\<close> return it.\<close>

fun argmax :: "real list \<Rightarrow> nat" where
  "argmax [] = 0"
| "argmax (x # xs) = (if list_all (\<lambda>y. y \<le> x) xs then 0 else Suc (argmax xs))"

text \<open>The values along dimension 1 at one position.\<close>

definition scores :: "real t3 \<Rightarrow> nat \<Rightarrow> nat \<Rightarrow> real list" where
  "scores p h w = tab (length p) (\<lambda>k. p ! k ! h ! w)"

definition scores2 :: "real list list \<Rightarrow> nat \<Rightarrow> real list" where
  "scores2 p w = tab (length p) (\<lambda>k. p ! k ! w)"

text \<open>\<open>torch.max(t, dim=1)\<close>: values and indices; a reduction over an empty dimension
  raises.\<close>

definition max_dim1 :: "real t4 \<Rightarrow> error + (real t3 \<times> int t3)" where
  "max_dim1 t =
     (if dim1 t = 0 then Inl IndexError
      else Inr (tab (length t) (\<lambda>b. tab (dim2 t) (\<lambda>h. tab (dim3 t) (\<lambda>w.
                  Max (set (scores (t ! b) h w))))),
                tab (length t) (\<lambda>b. tab (dim2 t) (\<lambda>h. tab (dim3 t) (\<lambda>w.
                  int (argmax (scores (t ! b) h w)))))))"

definition max3_dim1 :: "real t3 \<Rightarrow> error + (real t3 \<times> int t3)" where
  "max3_dim1 t =
     (if dim1 t = 0 then Inl IndexError
      else Inr ([tab (length t) (\<lambda>a. tab (dim2 t) (\<lambda>w. Max (set (scores2 (t ! a) w))))],
                [tab (length t) (\<lambda>a. tab (dim2 t) (\<lambda>w. int (argmax (scores2 (t ! a) w))))]))"

text \<open>\<open>maxpred > T\<close>\<close>

definition gt :: "real t3 \<Rightarrow> real \<Rightarrow> bool t3" where
  "gt m T = map (map (map (\<lambda>v. T < v))) m"

section \<open>External collaborators and trainer state\<close>

text \<open>What the model returns: one prediction map, or a (main, auxiliary) pair.\<close>

datatype prediction = Single "real t4" | Pair "real t4" "real t4"

text \<open>A batch \<open>(image, label, id)\<close>; the id is never read.\<close>

type_synonym batch = "real t4 \<times> int t3"

text \<open>The confusion data of the evaluator: the (label, prediction) pairs added since the
  last reset.\<close>

type_synonym conf = "(int t3 \<times> int t3) list"

datatype event =
    Forward bool "real t4"        \<comment> \<open>a call of the model: gradient tracking on?, the input\<close>
  | FourierMix                    \<comment> \<open>a call of \<open>fourier_mix\<close>\<close>
  | Augment                       \<comment> \<open>a call of \<open>augment\<close>\<close>
  | CutMix                        \<comment> \<open>a call of \<open>cutmix_combine\<close>\<close>
  | Backward real                 \<comment> \<open>\<open>.backward()\<close> on a loss of this value\<close>
  | OptimizerStep
  | ZeroGrad
  | EmaUpdateParams
  | EmaUpdateBuffer
  | EmaApplyShadow
  | EmaRestore
  | AddScalar string pynum nat    \<comment> \<open>\<open>writer.add_scalar(tag, value, step)\<close>\<close>
  | LogLosses "(string \<times> real) list"
  | LogInfo string
  | SaveImage nat

text \<open>
  The collaborators that are not part of the file are parameters: the model (a function of
  its mode, its current parameters, \<open>forward_target\<close> and the input), the cross-entropy on
  inputs it accepts, the perturbations, the effect of \<open>optimizer.step()\<close> given the
  backward calls of the step, the batch providers (the batches of the pass numbered by the
  epoch counter), the metrics of the evaluator, whether the directory \<open>save_image\<close>
  writes to exists, and whether the model has an attribute \<open>module\<close>. Randomness inside them is not modelled.
\<close>

record env =
  forward :: "bool \<Rightarrow> params \<Rightarrow> nat \<Rightarrow> real t4 \<Rightarrow> prediction"
  ce :: "real t4 \<Rightarrow> int t3 \<Rightarrow> real"
  fourier_mix :: "real t4 \<Rightarrow> real t4 \<Rightarrow> real t4"
  augment :: "real t4 \<Rightarrow> int t3 \<Rightarrow> real t4 \<times> int t3"
  cutmix_combine :: "real t4 \<Rightarrow> int t4 \<Rightarrow> real t4 \<Rightarrow> int t4 \<Rightarrow> real t4 \<times> int t4"
  optimizer_step :: "optimizer \<Rightarrow> event list \<Rightarrow> params \<Rightarrow> optimizer \<times> params"
  source_dataloader :: "nat \<Rightarrow> batch list"
  target_dataloader :: "nat \<Rightarrow> batch list"
  source_val_dataloader :: "batch list"
  target_val_dataloader :: "batch list"
  image_dir_exists :: bool
  has_module :: bool
  Pixel_Accuracy :: "conf \<Rightarrow> real"
  Mean_Pixel_Accuracy :: "conf \<Rightarrow> real"
  Mean_Intersection_over_Union :: "conf \<Rightarrow> real"
  Frequency_Weighted_Intersection_over_Union :: "conf \<Rightarrow> real"
  Mean_Pixel_Accuracy_16_13 :: "conf \<Rightarrow> real \<times> real"
  Mean_Intersection_over_Union_16_13 :: "conf \<Rightarrow> real \<times> real"
  Frequency_Weighted_Intersection_over_Union_16_13 :: "conf \<Rightarrow> real \<times> real"

text \<open>
  Modelled from the spec: the class \<open>EMA\<close> of \<open>models/ema.py\<close> is not among the sources.
  Its state is the shadow copy, the backup that \<open>applyShadow\<close> takes of the live trainable
  parameters, the decay, and the names of the trainable parameters (all other entries are
  buffers).
\<close>

record ema_state =
  shadow :: params
  backup :: params
  decay :: real
  param_keys :: "string list"

datatype ckval = CkInt int | CkReal real | CkTensor "real list" | CkDict params | CkOpt optimizer

type_synonym checkpoint = "(string \<times> ckval) list"

text \<open>The trainer. \<open>best_iter\<close> is \<open>None\<close> as long as the attribute has not been assigned:
  \<open>__init__\<close> does not create it. \<open>files\<close> are the checkpoints written, in order.\<close>

record trainer =
  epoch :: nat
  iter :: nat
  current_MIoU :: real
  best_MIou :: real
  best_iter :: "nat option"
  continue_training :: bool
  training :: bool
  model_state :: params
  ema :: ema_state
  optim :: optimizer
  evaluator :: conf
  trace :: "event list"
  files :: "(string \<times> checkpoint) list"

section \<open>The exponential moving average\<close>

text \<open>Assigning a state dictionary onto the entries the model has.\<close>

definition load_into :: "params \<Rightarrow> params \<Rightarrow> params" where
  "load_into src live = map (\<lambda>(k, v). (k, case map_of src k of Some w \<Rightarrow> w | None \<Rightarrow> v)) live"

definition only_keys :: "string list \<Rightarrow> params \<Rightarrow> params" where
  "only_keys ks p = filter (\<lambda>(k, v). k \<in> set ks) p"

text \<open>Modelled from the spec: \<open>updateParams\<close>,
  \<open>shadow = decay * shadow + (1 - decay) * live\<close> elementwise over trainable parameters.\<close>

definition update_params :: "ema_state \<Rightarrow> params \<Rightarrow> ema_state" where
  "update_params e live =
     e\<lparr>shadow := map (\<lambda>(k, s).
          (k, case map_of live k of
                Some v \<Rightarrow> if k \<in> set (param_keys e)
                          then map2 (\<lambda>a b. decay e * a + (1 - decay e) * b) s v else s
              | None \<Rightarrow> s)) (shadow e)\<rparr>"

text \<open>Modelled from the spec: \<open>updateBuffers\<close> copies the non-trainable running statistics
  from live to shadow.\<close>

definition update_buffer :: "ema_state \<Rightarrow> params \<Rightarrow> ema_state" where
  "update_buffer e live =
     e\<lparr>shadow := map (\<lambda>(k, s).
          (k, case map_of live k of
                Some v \<Rightarrow> if k \<in> set (param_keys e) then s else v
              | None \<Rightarrow> s)) (shadow e)\<rparr>"

text \<open>Modelled from the spec: \<open>applyShadow\<close> backs the live parameters up and puts the
  shadow parameters in their place; \<open>restore\<close> puts the backup back and empties it.\<close>

definition apply_shadow :: "ema_state \<Rightarrow> params \<Rightarrow> ema_state \<times> params" where
  "apply_shadow e live =
     (e\<lparr>backup := only_keys (param_keys e) live\<rparr>,
      load_into (only_keys (param_keys e) (shadow e)) live)"

definition restore :: "ema_state \<Rightarrow> params \<Rightarrow> ema_state \<times> params" where
  "restore e live = (e\<lparr>backup := []\<rparr>, load_into (backup e) live)"

section \<open>One training step: the losses\<close>

text \<open>A computation that emits events and returns a value or raises.\<close>

type_synonym 'a act = "event list \<times> (error + 'a)"

definition ret :: "'a \<Rightarrow> 'a act" where
  "ret v = ([], Inr v)"

definition raise :: "error \<Rightarrow> 'a act" where
  "raise e = ([], Inl e)"

definition emit :: "event \<Rightarrow> unit act" where
  "emit ev = ([ev], Inr ())"

definition lift :: "error + 'a \<Rightarrow> 'a act" where
  "lift r = ([], r)"

definition then_do :: "'a act \<Rightarrow> ('a \<Rightarrow> 'b act) \<Rightarrow> 'b act" where
  "then_do m f =
     (case m of
        (es, Inl e) \<Rightarrow> (es, Inl e)
      | (es, Inr v) \<Rightarrow> (case f v of (es', r) \<Rightarrow> (es @ es', r)))"

text \<open>\<open>del name\<close>: a name that was never bound raises; \<open>None\<close> stands for such a name.\<close>

definition del :: "'a option \<Rightarrow> unit act" where
  "del v = (case v of None \<Rightarrow> raise UnboundLocalError | Some _ \<Rightarrow> ret ())"

text \<open>The helper \<open>unpack\<close> of \<open>train_one_epoch\<close>.\<close>

definition unpack :: "prediction \<Rightarrow> real t4 \<times> real t4 option" where
  "unpack x = (case x of Pair a b \<Rightarrow> (a, Some b) | Single t \<Rightarrow> (t, None))"

text \<open>\<open>self.loss(pred, target)\<close>: the cross-entropy rejects \<open>None\<close>.\<close>

definition loss :: "env \<Rightarrow> real t4 option \<Rightarrow> int t3 \<Rightarrow> error + real" where
  "loss env pred target = (case pred of None \<Rightarrow> Inl TypeError | Some p \<Rightarrow> Inr (ce env p target))"

text \<open>A call of the model by the trainer.\<close>

definition model :: "env \<Rightarrow> cfg \<Rightarrow> trainer \<Rightarrow> real t4 \<Rightarrow> prediction" where
  "model env c self x = forward env (training self) (model_state self) (num_target c) x"

text \<open>The auxiliary part of a loss, computed under \<open>if self.cfg.aux\<close> only; \<open>None\<close> when the
  name stays unbound. The target is \<open>None\<close> when its name was never bound.\<close>

definition aux_loss ::
  "env \<Rightarrow> cfg \<Rightarrow> real t4 option \<Rightarrow> int t3 option \<Rightarrow> real \<Rightarrow> real option act" where
  "aux_loss env c pred_2 y w =
     (if aux c
      then (case y of
              None \<Rightarrow> raise UnboundLocalError
            | Some y \<Rightarrow> then_do (lift (loss env pred_2 y)) (\<lambda>l. ret (Some (l * w))))
      else ret None)"

definition plus_aux :: "real \<Rightarrow> real option \<Rightarrow> real" where
  "plus_aux l1 l2 = (case l2 of Some v \<Rightarrow> l1 + v | None \<Rightarrow> l1)"

definition record_losses :: "string \<Rightarrow> real \<Rightarrow> string \<Rightarrow> real option \<Rightarrow> (string \<times> real) list" where
  "record_losses n1 l1 n2 l2 = (n1, l1) # (case l2 of Some v \<Rightarrow> [(n2, v)] | None \<Rightarrow> [])"

text \<open>Source supervised loss (lines 186--221). Returns the clone \<open>x_source\<close>, the labels
  \<open>y\<close> and the entries written to \<open>losses\<close>.\<close>

definition source_branch ::
  "env \<Rightarrow> cfg \<Rightarrow> trainer \<Rightarrow> batch \<Rightarrow> batch \<Rightarrow> (real t4 \<times> int t3 \<times> (string \<times> real) list) act" where
  "source_branch env c self batch_s batch_t =
     (let x = fst batch_s; x_source = x; y = squeeze_dim1 (snd batch_s) in
      then_do (if source_fourier c
               then then_do (emit FourierMix) (\<lambda>_. ret (fourier_mix env x (fst batch_t)))
               else ret x) (\<lambda>x.
      then_do (emit (Forward True x)) (\<lambda>_.
      case unpack (model env c self x) of (pred_1, pred_2) \<Rightarrow>
      then_do (lift (loss env (Some pred_1) y)) (\<lambda>loss_source_1.
      then_do (aux_loss env c pred_2 (Some y) (lam_aux c)) (\<lambda>loss_source_2.
      then_do (emit (Backward (plus_aux loss_source_1 loss_source_2))) (\<lambda>_.
      then_do (del loss_source_2) (\<lambda>_.
      ret (x_source, y,
           record_losses ''source_main'' loss_source_1 ''source_aux'' loss_source_2))))))))"

text \<open>Line 235, \<open>a, b = self.model(...)\<close>: a pair is taken apart; a single tensor is
  iterated along its first dimension, which gives two rank-3 slices when the batch has two
  images and raises otherwise.\<close>

datatype pred = P4 "real t4" | P3 "real t3"

definition unpack2 :: "prediction \<Rightarrow> error + pred \<times> pred" where
  "unpack2 out =
     (case out of
        Pair a b \<Rightarrow> Inr (P4 a, P4 b)
      | Single t \<Rightarrow> if length t = 2 then Inr (P3 (t ! 0), P3 (t ! 1)) else Inl ValueError)"

definition softmax_pred :: "pred \<Rightarrow> pred" where
  "softmax_pred p = (case p of P4 t \<Rightarrow> P4 (softmax_dim1 t) | P3 t \<Rightarrow> P3 (softmax3_dim1 t))"

definition max_pred :: "pred \<Rightarrow> error + (real t3 \<times> int t3)" where
  "max_pred p = (case p of P4 t \<Rightarrow> max_dim1 t | P3 t \<Rightarrow> max3_dim1 t)"

text \<open>Lines 239--248 on the probabilities \<open>pseudo3_1\<close>: the mask and the labels.\<close>

definition best_labels :: "real \<Rightarrow> pred \<Rightarrow> int t3 \<Rightarrow> error + (bool t3 \<times> int t3)" where
  "best_labels T pseudo3_1 y =
     (case max_pred pseudo3_1 of
        Inl e \<Rightarrow> Inl e
      | Inr (maxpred_best, label_best) \<Rightarrow>
          (let mask_1 = gt maxpred_best T
           in case where3 mask_1 label_best y of
                Inl e \<Rightarrow> Inl e
              | Inr label_1 \<Rightarrow> Inr (mask_1, label_1)))"

definition pseudo_best :: "cfg \<Rightarrow> pred \<Rightarrow> int t3 \<Rightarrow> error + (bool t3 \<times> int t3)" where
  "pseudo_best c pseudo_outputs3_1 y =
     best_labels (pseudobest_threshold c) (softmax_pred pseudo_outputs3_1) y"

text \<open>Lines 250--251: the hybrid image.\<close>

definition hybrid :: "bool t3 \<Rightarrow> real t4 \<Rightarrow> real t4 \<Rightarrow> error + real t4" where
  "hybrid mask_1 x x_source = where4 (repeat_1311 (unsqueeze0 mask_1)) x x_source"

text \<open>The self-best branch (lines 226--261). Returns the image \<open>x\<close> as the later branches
  see it, which is the hybrid image.\<close>

definition self_best_branch ::
  "env \<Rightarrow> cfg \<Rightarrow> trainer \<Rightarrow> batch \<Rightarrow> real t4 \<Rightarrow> int t3 \<Rightarrow> real t4 act" where
  "self_best_branch env c self batch_t x_source y =
     (let x = fst batch_t in
      then_do (emit (Forward False x)) (\<lambda>_.
      then_do (lift (unpack2 (model env c self x))) (\<lambda>(pseudo_outputs3_1, pseudo_outputs3_2).
      then_do (lift (pseudo_best c pseudo_outputs3_1 y)) (\<lambda>(mask_1, label_1).
      then_do (lift (hybrid mask_1 x x_source)) (\<lambda>x.
      then_do (emit (Forward True x)) (\<lambda>_.
      case unpack (model env c self x) of (pred_1_g, pred_2_g) \<Rightarrow>
      then_do (lift (loss env (Some pred_1_g) label_1)) (\<lambda>l1.
      then_do (lift (loss env pred_2_g label_1)) (\<lambda>l2.
      let loss_self_train1 = l1 * lam_new c;
          loss_self_train2 = lam_aux c * l2 * lam_new c;
          loss_self_train = loss_self_train1 + loss_self_train2
      in then_do (emit (Backward loss_self_train)) (\<lambda>_. ret x)))))))))"

text \<open>The original pseudo-label pass (lines 270--291), run on \<open>x\<close> as the self-best
  branch left it. \<open>ignore_tensor\<close> has shape \<open>[1]\<close>.\<close>

definition ignore_tensor :: "int t3" where
  "ignore_tensor = [[[- 1]]]"

text \<open>\<open>(maxpred_1 > T) | (maxpred_2 > T)\<close>\<close>

definition either_mask :: "real \<Rightarrow> real t3 \<Rightarrow> real t3 \<Rightarrow> error + bool t3" where
  "either_mask T maxpred_1 maxpred_2 =
     bcast3 (\<lambda>a b _. a \<or> b) (gt maxpred_1 T) (gt maxpred_2 T) (gt maxpred_2 T)"

definition pseudo_label_pass ::
  "env \<Rightarrow> cfg \<Rightarrow> trainer \<Rightarrow> real t4 \<Rightarrow> (int t3 \<times> int t3 option) act" where
  "pseudo_label_pass env c self x =
     then_do (emit (Forward False x)) (\<lambda>_.
     case unpack (model env c self x) of (pred_1, pred_2) \<Rightarrow>
     let pred_P_1 = softmax_dim1 pred_1 in
     then_do (lift (max_dim1 pred_P_1)) (\<lambda>(maxpred_1, label_1).
     let T = pseudolabel_threshold c; mask_1 = gt maxpred_1 T in
     then_do (lift (where3 mask_1 label_1 ignore_tensor)) (\<lambda>label_1.
     if aux c then
       (case pred_2 of
          None \<Rightarrow> raise AttributeError
        | Some pred_2 \<Rightarrow>
            let pred_P_2 = softmax_dim1 pred_2 in
            then_do (lift (max_dim1 pred_P_2)) (\<lambda>(maxpred_2, argpred_2).
            then_do (lift (bcast4 (\<lambda>a b _. (a + b) / 2) pred_P_1 pred_P_2 pred_P_2)) (\<lambda>pred_c.
            then_do (lift (max_dim1 pred_c)) (\<lambda>(maxpred_c, argpred_c).
            then_do (lift (either_mask T maxpred_1 maxpred_2)) (\<lambda>mask.
            then_do (lift (where3 mask argpred_c ignore_tensor)) (\<lambda>label_2.
            ret (label_1, Some label_2)))))))
     else ret (label_1, None))))"

text \<open>Augmentation consistency (lines 296--328).\<close>

definition aug_branch ::
  "env \<Rightarrow> cfg \<Rightarrow> trainer \<Rightarrow> real t4 \<Rightarrow> int t3 \<Rightarrow> int t3 option \<Rightarrow> (string \<times> real) list act" where
  "aug_branch env c self x label_1 label_2 =
     then_do (emit Augment) (\<lambda>_.
     case augment env x label_1 of (x_aug, y_aug_1) \<Rightarrow>
     then_do (if aux c
              then (case label_2 of
                      None \<Rightarrow> raise UnboundLocalError
                    | Some label_2 \<Rightarrow>
                        then_do (emit Augment) (\<lambda>_. ret (Some (snd (augment env x label_2)))))
              else ret None) (\<lambda>y_aug_2.
     then_do (emit (Forward True x_aug)) (\<lambda>_.
     case unpack (model env c self x_aug) of (pred_aug_1, pred_aug_2) \<Rightarrow>
     then_do (lift (loss env (Some pred_aug_1) y_aug_1)) (\<lambda>l1.
     let loss_aug_1 = l1 * lam_aug c in
     then_do (aux_loss env c pred_aug_2 y_aug_2 (lam_aug c * lam_aux c)) (\<lambda>loss_aug_2.
     then_do (emit (Backward (plus_aux loss_aug_1 loss_aug_2))) (\<lambda>_.
     then_do (del loss_aug_2) (\<lambda>_.
     ret (record_losses ''aug_main'' loss_aug_1 ''aug_aux'' loss_aug_2))))))))"

text \<open>Fourier consistency (lines 333--363).\<close>

definition fourier_branch ::
  "env \<Rightarrow> cfg \<Rightarrow> trainer \<Rightarrow> batch \<Rightarrow> real t4 \<Rightarrow> int t3 \<Rightarrow> int t3 option
     \<Rightarrow> (string \<times> real) list act" where
  "fourier_branch env c self batch_s x label_1 label_2 =
     then_do (emit FourierMix) (\<lambda>_.
     let x_fourier = fourier_mix env x (fst batch_s) in
     then_do (emit (Forward True x_fourier)) (\<lambda>_.
     case unpack (model env c self x_fourier) of (pred_fourier_1, pred_fourier_2) \<Rightarrow>
     then_do (lift (loss env (Some pred_fourier_1) label_1)) (\<lambda>l1.
     let loss_fourier_1 = l1 * lam_fourier c in
     then_do (aux_loss env c pred_fourier_2 label_2 (lam_fourier c * lam_aux c)) (\<lambda>loss_fourier_2.
     then_do (emit (Backward (plus_aux loss_fourier_1 loss_fourier_2))) (\<lambda>_.
     then_do (del loss_fourier_2) (\<lambda>_.
     ret (record_losses ''fourier_main'' loss_fourier_1 ''fourier_aux'' loss_fourier_2)))))))"

text \<open>CutMix consistency (lines 368--399). The labels go in with a dimension of size 1
  inserted at position 1; the mixed label is squeezed at that position before the loss,
  which rejects a target that kept four dimensions.\<close>

definition unsqueeze1 :: "'a t3 \<Rightarrow> 'a t4" where
  "unsqueeze1 t = map (\<lambda>p. [p]) t"

definition loss_squeezed :: "env \<Rightarrow> real t4 option \<Rightarrow> int t4 \<Rightarrow> error + real" where
  "loss_squeezed env pred y_cutmix =
     (case pred of
        None \<Rightarrow> Inl TypeError
      | Some p \<Rightarrow> if dim1 y_cutmix = 1 then Inr (ce env p (map hd y_cutmix)) else Inl RuntimeError)"

definition cutmix_branch ::
  "env \<Rightarrow> cfg \<Rightarrow> trainer \<Rightarrow> batch \<Rightarrow> real t4 \<Rightarrow> int t3 \<Rightarrow> (string \<times> real) list act" where
  "cutmix_branch env c self batch_s x label_1 =
     then_do (emit CutMix) (\<lambda>_.
     case cutmix_combine env x (unsqueeze1 label_1) (fst batch_s) (unsqueeze1 (snd batch_s)) of
       (x_cutmix, y_cutmix) \<Rightarrow>
     then_do (emit (Forward True x_cutmix)) (\<lambda>_.
     case unpack (model env c self x_cutmix) of (pred_cutmix_1, pred_cutmix_2) \<Rightarrow>
     then_do (lift (loss_squeezed env (Some pred_cutmix_1) y_cutmix)) (\<lambda>l1.
     let loss_cutmix_1 = l1 * lam_cutmix c in
     then_do (if aux c
              then then_do (lift (loss_squeezed env pred_cutmix_2 y_cutmix))
                     (\<lambda>l. ret (Some (l * (lam_cutmix c * lam_aux c))))
              else ret None) (\<lambda>loss_cutmix_2.
     then_do (emit (Backward (plus_aux loss_cutmix_1 loss_cutmix_2))) (\<lambda>_.
     then_do (del loss_cutmix_2) (\<lambda>_.
     ret (record_losses ''cutmix_main'' loss_cutmix_1 ''cutmix_aux'' loss_cutmix_2)))))))"

text \<open>All loss terms of one step, in the order of the source (lines 181--399); the result
  is the dictionary \<open>losses\<close>.\<close>

definition losses_phase ::
  "env \<Rightarrow> cfg \<Rightarrow> trainer \<Rightarrow> batch \<Rightarrow> batch \<Rightarrow> (string \<times> real) list act" where
  "losses_phase env c self batch_s batch_t =
     then_do (source_branch env c self batch_s batch_t) (\<lambda>(x_source, y, losses).
     then_do (self_best_branch env c self batch_t x_source y) (\<lambda>x.
     then_do (pseudo_label_pass env c self x) (\<lambda>(label_1, label_2).
     then_do (if 0 < lam_aug c then aug_branch env c self x label_1 label_2 else ret []) (\<lambda>l_aug.
     then_do (if 0 < lam_fourier c then fourier_branch env c self batch_s x label_1 label_2
              else ret []) (\<lambda>l_fourier.
     then_do (if 0 < lam_cutmix c then cutmix_branch env c self batch_s x label_1
              else ret []) (\<lambda>l_cutmix.
     ret (losses @ l_aug @ l_fourier @ l_cutmix)))))))"

section \<open>Validation and checkpoints\<close>

text \<open>\<open>np.argmax(pred, axis=1)\<close>\<close>

definition np_argmax_axis1 :: "real t4 \<Rightarrow> error + int t3" where
  "np_argmax_axis1 t =
     (if dim1 t = 0 then Inl ValueError
      else Inr (tab (length t) (\<lambda>b. tab (dim2 t) (\<lambda>h. tab (dim3 t) (\<lambda>w.
                  int (argmax (scores (t ! b) h w)))))))"

text \<open>\<open>Trainer.save_image\<close> writes two files below a fixed directory.\<close>

definition save_image :: "env \<Rightarrow> nat \<Rightarrow> trainer \<Rightarrow> error option \<times> trainer" where
  "save_image env idx self =
     (if image_dir_exists env then (None, self\<lparr>trace := trace self @ [SaveImage idx]\<rparr>)
      else (Some FileNotFoundError, self))"

text \<open>The loop of \<open>Trainer.validate\<close> (lines 507--524). \<open>seen\<close> tells whether an iteration
  has bound \<open>label\<close> and \<open>argpred\<close>, which the code after the loop reads.\<close>

fun val_loop ::
  "env \<Rightarrow> cfg \<Rightarrow> string \<Rightarrow> nat \<Rightarrow> batch list \<Rightarrow> bool \<Rightarrow> trainer \<Rightarrow> (error + bool) \<times> trainer" where
  "val_loop env c mode val_idx [] seen self = (Inr seen, self)"
| "val_loop env c mode val_idx ((x, y) # rest) seen self =
     (if mode = ''source'' \<and> source_val_iterations c \<le> val_idx then (Inr seen, self)
      else
        (let self = self\<lparr>trace := trace self @ [Forward False x]\<rparr>;
             pred = (case model env c self x of Pair a b \<Rightarrow> a | Single t \<Rightarrow> t);
             label = squeeze_dim1 y
         in case np_argmax_axis1 pred of
              Inl e \<Rightarrow> (Inl e, self)
            | Inr argpred \<Rightarrow>
                (case (if 0 < val_idx \<and> val_idx mod 300 = 0 then save_image env val_idx self
                       else (None, self)) of
                   (Some e, self) \<Rightarrow> (Inl e, self)
                 | (None, self) \<Rightarrow>
                     val_loop env c mode (Suc val_idx) rest True
                       (self\<lparr>evaluator := evaluator self @ [(label, argpred)]\<rparr>))))"

text \<open>\<open>Trainer.validate\<close>. Validation changes the evaluator, the mode of the model and
  the log, never the parameters.\<close>

definition validate ::
  "env \<Rightarrow> cfg \<Rightarrow> string \<Rightarrow> trainer \<Rightarrow> (error + real \<times> real \<times> real \<times> real) \<times> trainer" where
  "validate env c mode self =
     (let self = self\<lparr>trace := trace self @ [LogInfo ''Validating''],
                      evaluator := [], training := False\<rparr>
      in if mode \<noteq> ''target'' \<and> mode \<noteq> ''source'' then (Inl NotImplementedError, self)
         else
           (let val_loader = (if mode = ''target'' then target_val_dataloader env
                              else source_val_dataloader env)
            in case val_loop env c mode 0 val_loader False self of
                 (Inl e, self) \<Rightarrow> (Inl e, self)
               | (Inr seen, self) \<Rightarrow>
                   if \<not> seen then (Inl UnboundLocalError, self)
                   else
                     (let cm = evaluator self; ep = epoch self in
                      if class_16 c then
                        (let PA = Pixel_Accuracy env cm;
                             (MPA_16, MPA_13) = Mean_Pixel_Accuracy_16_13 env cm;
                             (MIoU_16, MIoU_13) = Mean_Intersection_over_Union_16_13 env cm;
                             (FWIoU_16, FWIoU_13) =
                               Frequency_Weighted_Intersection_over_Union_16_13 env cm
                         in (Inr (PA, MPA_13, MIoU_13, FWIoU_13),
                             self\<lparr>trace := trace self @
                               [AddScalar ''PA'' (PyFloat PA) ep,
                                AddScalar ''MPA_16'' (PyFloat MPA_16) ep,
                                AddScalar ''MIoU_16'' (PyFloat MIoU_16) ep,
                                AddScalar ''FWIoU_16'' (PyFloat FWIoU_16) ep,
                                AddScalar ''MPA_13'' (PyFloat MPA_13) ep,
                                AddScalar ''MIoU_13'' (PyFloat MIoU_13) ep,
                                AddScalar ''FWIoU_13'' (PyFloat FWIoU_13) ep]\<rparr>))
                      else
                        (let PA = Pixel_Accuracy env cm;
                             MPA = Mean_Pixel_Accuracy env cm;
                             MIoU = Mean_Intersection_over_Union env cm;
                             FWIoU = Frequency_Weighted_Intersection_over_Union env cm
                         in (Inr (PA, MPA, MIoU, FWIoU),
                             self\<lparr>trace := trace self @
                               [AddScalar ''PA'' (PyFloat PA) ep,
                                AddScalar ''MPA'' (PyFloat MPA) ep,
                                AddScalar ''MIoU'' (PyFloat MIoU) ep,
                                AddScalar ''FWIoU'' (PyFloat FWIoU) ep]\<rparr>)))))"

text \<open>\<open>Trainer.save_checkpoint\<close>\<close>

definition save_checkpoint :: "string \<Rightarrow> trainer \<Rightarrow> trainer" where
  "save_checkpoint filename self =
     self\<lparr>files := files self @
       [(filename,
         [(''epoch'', CkInt (int (epoch self + 1))),
          (''iter'', CkInt (int (iter self))),
          (''state_dict'', CkDict (model_state self)),
          (''shadow'', CkDict (shadow (ema self))),
          (''optimizer'', CkOpt (optim self)),
          (''best_MIou'', CkReal (best_MIou self))])]\<rparr>"

section \<open>One training step, one epoch, training\<close>

datatype outcome = Normal | Return | Raise error

text \<open>The validation block of the step (lines 437--470): the shadow parameters are put
  in, the model is validated on the target, the live parameters are put back, and a new
  best model is saved. An exception raised by \<open>validate\<close> leaves the block at once.
  \<open>swap_in\<close> is lines 439--441.\<close>

definition swap_in :: "trainer \<Rightarrow> trainer" where
  "swap_in self =
     (let (e, live) = apply_shadow (ema self) (model_state self)
      in self\<lparr>ema := e, model_state := live, training := False,
               trace := trace self @ [EmaApplyShadow]\<rparr>)"

definition validation_phase :: "env \<Rightarrow> cfg \<Rightarrow> trainer \<Rightarrow> outcome \<times> trainer" where
  "validation_phase env c self =
     (let self = swap_in self
      in case validate env c ''target'' self of
           (Inl err, self) \<Rightarrow> (Raise err, self)
         | (Inr (PA, MPA, MIoU, FWIoU), self) \<Rightarrow>
             (let (e, live) = restore (ema self) (model_state self);
                  ep = epoch self;
                  self = self\<lparr>ema := e, model_state := live,
                              trace := trace self @
                                [EmaRestore,
                                 AddScalar ''PA'' (PyFloat PA) ep,
                                 AddScalar ''MPA'' (PyFloat MPA) ep,
                                 AddScalar ''MIoU'' (PyFloat MIoU) ep,
                                 AddScalar ''FWIoU'' (PyFloat FWIoU) ep]\<rparr>;
                  self = self\<lparr>current_MIoU := MIoU\<rparr>;
                  is_best = (best_MIou self < MIoU)
              in if is_best then
                   (let self = self\<lparr>best_MIou := MIoU, best_iter := Some (iter self)\<rparr>;
                        self = self\<lparr>trace := trace self @
                                 [LogInfo ''=> Saving a new best checkpoint...'',
                                  LogInfo ''=> The best val MIoU is now''] \<rparr>
                    in (Normal, save_checkpoint ''best.pth'' self))
                 else
                   (let self = self\<lparr>trace := trace self @
                                 [LogInfo ''=> The MIoU of val did not improve.'']\<rparr>
                    in case best_iter self of
                         None \<Rightarrow> (Raise AttributeError, self)
                       | Some _ \<Rightarrow>
                           (Normal, self\<lparr>trace := trace self @
                                      [LogInfo ''=> The best val MIoU is still'']\<rparr>))))"

text \<open>The body of the loop of \<open>train_one_epoch\<close> (lines 173--470) for one pair of batches.
  \<open>Return\<close> is the \<open>return\<close> of line 431.\<close>

definition train_step ::
  "env \<Rightarrow> cfg \<Rightarrow> nat \<Rightarrow> batch \<Rightarrow> batch \<Rightarrow> trainer \<Rightarrow> outcome \<times> trainer" where
  "train_step env c batch_idx batch_s batch_t self =
     (let self = self\<lparr>training := True, evaluator := []\<rparr>
      in case poly_lr_scheduler c (iter self) (optim self) None None None None of
           Inl e \<Rightarrow> (Raise e, self)
         | Inr opt \<Rightarrow>
             (let self = self\<lparr>optim := opt,
                    trace := trace self @
                      [AddScalar ''train/lr'' (param_groups opt ! 0) (iter self)]\<rparr>
              in case losses_phase env c self batch_s batch_t of
                   (es, Inl e) \<Rightarrow> (Raise e, self\<lparr>trace := trace self @ es\<rparr>)
                 | (es, Inr losses) \<Rightarrow>
                     (let (opt', live') = optimizer_step env (optim self) es (model_state self);
                          self = self\<lparr>optim := opt', model_state := live',
                                   trace := trace self @ es @ [OptimizerStep, ZeroGrad]\<rparr>;
                          self = self\<lparr>ema := update_params (ema self) (model_state self),
                                   trace := trace self @ [EmaUpdateParams]\<rparr>;
                          total_loss = sum_list (map snd losses);
                          self = self\<lparr>trace := trace self @
                                   map (\<lambda>(name, l). AddScalar (''train/'' @ name) (PyFloat l)
                                                      (iter self)) losses\<rparr>;
                          self = (if batch_idx mod 100 = 0
                                  then self\<lparr>trace := trace self @ [LogLosses losses]\<rparr>
                                  else self);
                          self = self\<lparr>iter := iter self + 1\<rparr>
                      in if opt_iterations c < int (iter self)
                         then (Return, self\<lparr>continue_training := False\<rparr>)
                         else
                           (let self = self\<lparr>ema := update_buffer (ema self) (model_state self),
                                          trace := trace self @ [EmaUpdateBuffer]\<rparr>
                            in if 0 < batch_idx \<and> batch_idx mod 200 = 0
                               then validation_phase env c self
                               else (Normal, self)))))"

text \<open>The loop of \<open>train_one_epoch\<close> over the paired batches, and the function itself.\<close>

fun epoch_loop ::
  "env \<Rightarrow> cfg \<Rightarrow> nat \<Rightarrow> (batch \<times> batch) list \<Rightarrow> trainer \<Rightarrow> outcome \<times> trainer" where
  "epoch_loop env c batch_idx [] self = (Normal, self)"
| "epoch_loop env c batch_idx ((batch_s, batch_t) # rest) self =
     (case train_step env c batch_idx batch_s batch_t self of
        (Normal, self') \<Rightarrow> epoch_loop env c (Suc batch_idx) rest self'
      | (Return, self') \<Rightarrow> (Return, self')
      | (Raise e, self') \<Rightarrow> (Raise e, self'))"

definition train_one_epoch :: "env \<Rightarrow> cfg \<Rightarrow> trainer \<Rightarrow> outcome \<times> trainer" where
  "train_one_epoch env c self =
     epoch_loop env c 0
       (zip (source_dataloader env (epoch self)) (target_dataloader env (epoch self))) self"

text \<open>The \<open>while\<close> loop of \<open>Trainer.train\<close>; it has no result when it runs forever.\<close>

partial_function (option) train_loop :: "env \<Rightarrow> cfg \<Rightarrow> trainer \<Rightarrow> (outcome \<times> trainer) option" where
  "train_loop env c self =
     (if continue_training self then
        (case train_one_epoch env c self of
           (Raise e, self') \<Rightarrow> Some (Raise e, self')
         | (Normal, self') \<Rightarrow> train_loop env c (self'\<lparr>epoch := epoch self' + 1\<rparr>)
         | (Return, self') \<Rightarrow> train_loop env c (self'\<lparr>epoch := epoch self' + 1\<rparr>))
      else Some (Normal, self))"

text \<open>\<open>Trainer.train\<close>: the log line before the final checkpoint reads \<open>self.best_iter\<close>.\<close>

definition train :: "env \<Rightarrow> cfg \<Rightarrow> trainer \<Rightarrow> (outcome \<times> trainer) option" where
  "train env c self =
     (case train_loop env c (self\<lparr>continue_training := True\<rparr>) of
        None \<Rightarrow> None
      | Some (Raise e, self) \<Rightarrow> Some (Raise e, self)
      | Some (_, self) \<Rightarrow>
          (case best_iter self of
             None \<Rightarrow> Some (Raise AttributeError, self)
           | Some _ \<Rightarrow>
               Some (Normal,
                     save_checkpoint ''final.pth''
                       (self\<lparr>trace := trace self @
                          [LogInfo ''=> The best MIou was'',
                           LogInfo ''=> Saving the final checkpoint to final.pth'']\<rparr>))))"

section \<open>Loading a checkpoint\<close>

text \<open>\<open>k.replace('module.', '')\<close>\<close>

fun replace_module :: "string \<Rightarrow> string" where
  "replace_module [] = []"
| "replace_module (ch # cs) =
     (if take 7 (ch # cs) = ''module.'' then replace_module (drop 6 cs)
      else ch # replace_module cs)"

text \<open>The entries of a dictionary value; anything else has no \<open>items\<close>.\<close>

definition items :: "ckval \<Rightarrow> error + (string \<times> ckval) list" where
  "items v = (case v of CkDict p \<Rightarrow> Inr (map (\<lambda>(k, w). (k, CkTensor w)) p) | _ \<Rightarrow> Inl AttributeError)"

text \<open>The value a dictionary built from a list of entries holds at a key: the last one.\<close>

definition lookup :: "(string \<times> 'a) list \<Rightarrow> string \<Rightarrow> 'a option" where
  "lookup d k = map_of (rev d) k"

text \<open>\<open>load_state_dict(state_dict, strict)\<close>: an entry of the model takes the tensor stored
  under its name; a value that is no tensor or has another size is an error, and so is,
  when \<open>strict\<close>, a missing or unexpected name.\<close>

definition load_state_dict :: "bool \<Rightarrow> (string \<times> ckval) list \<Rightarrow> params \<Rightarrow> error + params" where
  "load_state_dict strict sd live =
     (if strict \<and> set (map fst sd) \<noteq> set (map fst live) then Inl RuntimeError
      else if list_ex (\<lambda>(k, v). case lookup sd k of
                                  Some (CkTensor w) \<Rightarrow> length w \<noteq> length v
                                | Some _ \<Rightarrow> True
                                | None \<Rightarrow> False) live
        then Inl RuntimeError
      else Inr (map (\<lambda>(k, v). (k, case lookup sd k of Some (CkTensor w) \<Rightarrow> w | _ \<Rightarrow> v)) live))"

text \<open>\<open>Trainer.load_checkpoint\<close>, on the payload read from the file.\<close>

definition load_checkpoint :: "env \<Rightarrow> cfg \<Rightarrow> checkpoint \<Rightarrow> trainer \<Rightarrow> error + trainer" where
  "load_checkpoint env c checkpoint self =
     (case (if \<not> train_flag c \<and> lookup checkpoint ''shadow'' \<noteq> None
            then items (the (lookup checkpoint ''shadow''))
            else if lookup checkpoint ''state_dict'' \<noteq> None
            then items (the (lookup checkpoint ''state_dict''))
            else Inr checkpoint) of
        Inl e \<Rightarrow> Inl e
      | Inr state_dict \<Rightarrow>
          (let state_dict = map (\<lambda>(k, v). (replace_module k, v)) state_dict
           in case load_state_dict (has_module env) state_dict (model_state self) of
                Inl e \<Rightarrow> Inl e
              | Inr live \<Rightarrow>
                  (let self = self\<lparr>model_state := live,
                                  trace := trace self @ [LogInfo ''Model loaded successfully'']\<rparr>
                   in if train_flag c \<and> resume_from_checkpoint c then
                        (case (case lookup checkpoint ''optimizer'' of
                                 None \<Rightarrow> Inr self
                               | Some (CkOpt opt) \<Rightarrow>
                                   Inr (self\<lparr>optim := opt,
                                          trace := trace self @
                                            [LogInfo ''Optimizer loaded successfully'']\<rparr>)
                               | Some _ \<Rightarrow> Inl TypeError) of
                           Inl e \<Rightarrow> Inl e
                         | Inr self \<Rightarrow>
                             if lookup checkpoint ''epoch'' \<noteq> None
                                \<and> lookup checkpoint ''iter'' \<noteq> None
                             then Inr (self\<lparr>epoch := 0, iter := 0,
                                         trace := trace self @
                                           [LogInfo ''Resuming training from epoch'']\<rparr>)
                             else Inr self)
                      else Inr (self\<lparr>trace := trace self @
                                   [LogInfo ''Did not resume optimizer'']\<rparr>))))"

section \<open>Notions used in the statements\<close>

text \<open>The probabilities of the classes at one pixel of a prediction.\<close>

definition pixel_probs :: "real t4 \<Rightarrow> nat \<Rightarrow> nat \<Rightarrow> nat \<Rightarrow> real list" where
  "pixel_probs out b h w = scores (softmax_dim1 out ! b) h w"

text \<open>One mask selects a subset of the pixels of another of the same shape.\<close>

definition mask_subset :: "bool t3 \<Rightarrow> bool t3 \<Rightarrow> bool" where
  "mask_subset m m' = list_all2 (list_all2 (list_all2 (\<lambda>p q. p \<longrightarrow> q))) m m'"

fun is_backward :: "event \<Rightarrow> bool" where
  "is_backward (Backward v) = True"
| "is_backward _ = False"

fun is_forward :: "bool \<Rightarrow> event \<Rightarrow> bool" where
  "is_forward g (Forward g' x) = (g = g')"
| "is_forward g _ = False"

section \<open>A concrete run\<close>

text \<open>A small configuration and environment on which the definitions are evaluated: one
  image of three channels, two rows and one column per batch, two classes, a model with
  two heads whose scores give the first pixel confidence 9/10 for class 1 and the second
  pixel confidence 1/2, and 100 batches per pass.\<close>

definition cfg0 :: cfg where
  "cfg0 = \<lparr>opt_lr = 1 / 4, opt_iterations = 1000, opt_poly_power = 9 / 10, num_target = 1,
            aux = True, lam_aux = 1 / 10, lam_new = 1, lam_aug = 0, lam_fourier = 0,
            lam_cutmix = 0, source_fourier = False, pseudobest_threshold = 3 / 4,
            pseudolabel_threshold = 3 / 4, train_flag = True, resume_from_checkpoint = True,
            class_16 = False, source_val_iterations = 0\<rparr>"

definition x_s0 :: "real t4" where
  "x_s0 = [[[[1], [2]], [[3], [4]], [[5], [6]]]]"

definition x_t0 :: "real t4" where
  "x_t0 = [[[[7], [8]], [[9], [10]], [[11], [12]]]]"

definition batch_s0 :: batch where
  "batch_s0 = (x_s0, [[[0], [0]]])"

definition batch_t0 :: batch where
  "batch_t0 = (x_t0, [[[0], [0]]])"

definition logits0 :: "real t4" where
  "logits0 = [[[[0], [0]], [[ln 9], [0]]]]"

definition env0 :: env where
  "env0 = \<lparr>forward = (\<lambda>tr p n x. Pair logits0 logits0),
            ce = (\<lambda>p y. 1),
            fourier_mix = (\<lambda>a b. a),
            augment = (\<lambda>x l. (x, l)),
            cutmix_combine = (\<lambda>x l x2 l2. (x, l)),
            optimizer_step = (\<lambda>opt es live. (opt, live)),
            source_dataloader = (\<lambda>e. replicate 100 batch_s0),
            target_dataloader = (\<lambda>e. replicate 100 batch_t0),
            source_val_dataloader = [],
            target_val_dataloader = [],
            image_dir_exists = False,
            has_module = False,
            Pixel_Accuracy = (\<lambda>cm. 0),
            Mean_Pixel_Accuracy = (\<lambda>cm. 0),
            Mean_Intersection_over_Union = (\<lambda>cm. 0),
            Frequency_Weighted_Intersection_over_Union = (\<lambda>cm. 0),
            Mean_Pixel_Accuracy_16_13 = (\<lambda>cm. (0, 0)),
            Mean_Intersection_over_Union_16_13 = (\<lambda>cm. (0, 0)),
            Frequency_Weighted_Intersection_over_Union_16_13 = (\<lambda>cm. (0, 0))\<rparr>"

definition trainer0 :: trainer where
  "trainer0 = \<lparr>epoch = 0, iter = 0, current_MIoU = 0, best_MIou = 0, best_iter = None,
                continue_training = False, training = False,
                model_state = [(''w'', [1])],
                ema = \<lparr>shadow = [(''w'', [0])], backup = [], decay = 1 / 2,
                       param_keys = [''w'']\<rparr>,
                optim = \<lparr>param_groups = [PyFloat 0, PyFloat 0], opt_state = []\<rparr>,
                evaluator = [], trace = [], files = []\<rparr>"

text \<open>Eight classes: the first pixel has confidence 9/10 for class 7, the second has
  confidence 3/10 for class 0.\<close>

definition logits8 :: "real t4" where
  "logits8 = [[[[0], [ln 3]], [[0], [0]], [[0], [0]], [[0], [0]],
               [[0], [0]], [[0], [0]], [[0], [0]], [[ln 63], [0]]]]"

definition y8 :: "int t3" where
  "y8 = [[[3], [5]]]"

text \<open>A batch of two images, and a model that answers it.\<close>

definition x_s2 :: "real t4" where
  "x_s2 = [[[[1], [2]], [[3], [4]], [[5], [6]]], [[[1], [2]], [[3], [4]], [[5], [6]]]]"

definition x_t2 :: "real t4" where
  "x_t2 = [[[[7], [8]], [[9], [10]], [[11], [12]]], [[[7], [8]], [[9], [10]], [[11], [12]]]]"

definition batch_s2 :: batch where
  "batch_s2 = (x_s2, [[[0], [0]], [[0], [0]]])"

definition batch_t2 :: batch where
  "batch_t2 = (x_t2, [[[0], [0]], [[0], [0]]])"

definition logits2 :: "real t4" where
  "logits2 = [[[[0], [0]], [[ln 9], [0]]], [[[0], [0]], [[ln 9], [0]]]]"

definition env2 :: env where
  "env2 = env0\<lparr>forward := (\<lambda>tr p n x. Pair logits2 logits2)\<rparr>"

text \<open>A model with one head, and a validation set of one batch.\<close>

definition env_single :: env where
  "env_single = env0\<lparr>forward := (\<lambda>tr p n x. Single logits0)\<rparr>"

definition env_val :: env where
  "env_val = env0\<lparr>target_val_dataloader := [batch_t0],
                   Mean_Intersection_over_Union := (\<lambda>cm. 41 / 100)\<rparr>"

text \<open>A checkpoint as \<open>save_checkpoint\<close> writes it, from a trainer that has made progress.\<close>

definition ckpt0 :: checkpoint where
  "ckpt0 = snd (hd (files (save_checkpoint ''final.pth''
             (trainer0\<lparr>epoch := 3, iter := 1001,
                       optim := \<lparr>param_groups = [PyFloat (1 / 8), PyFloat (5 / 4)],
                                 opt_state = [(''m'', [2])]\<rparr>\<rparr>))))"

text \<open>The hybrid image of that run: the first row from the target, the second from the
  source.\<close>

definition hyb0 :: "real t4" where
  "hyb0 = [[[[7], [2]], [[9], [4]], [[11], [6]]]]"

section \<open>Properties of the learning-rate schedule\<close>

lemma py_pow_pos: "0 < x \<Longrightarrow> py_pow x p = Inr (PyFloat (x powr p))"
  by (simp add: py_pow_def)

lemma py_pow_zero: "0 < p \<Longrightarrow> py_pow 0 p = Inr (PyFloat 0)"
  by (simp add: py_pow_def)

text \<open>
  Claim C8. With a positive iteration budget \<open>M\<close> and an iteration \<open>i \<le> M\<close> the scheduler
  succeeds on an optimizer that has a parameter group; the first group's rate is
  \<open>L0 * (1 - i/M) ^ P\<close> (for \<open>i < M\<close>), it is \<open>L0\<close> at \<open>i = 0\<close> and \<open>0\<close> at \<open>i = M\<close> when
  \<open>P > 0\<close>; a second group, when there are exactly two, gets ten times the rate.
  Arguments left out take the configured values.
\<close>

theorem poly_lr_scheduler_rate:
  assumes M: "0 < M" and iM: "int i \<le> M" and P: "i < nat M \<or> 0 < P"
    and groups: "param_groups opt = g # gs"
    and L0: "L0 = dflt (opt_lr c) init_lr" and i: "i = dflt self_iter it"
    and Mdef: "M = dflt (opt_iterations c) max_iter" and Pdef: "P = dflt (opt_poly_power c) pow"
  shows "\<exists>opt' rate.
           poly_lr_scheduler c self_iter opt init_lr it max_iter pow = Inr opt'
         \<and> param_groups opt' ! 0 = PyFloat rate
         \<and> (int i < M \<longrightarrow> rate = L0 * (1 - real i / real_of_int M) powr P)
         \<and> (i = 0 \<longrightarrow> rate = L0)
         \<and> (int i = M \<longrightarrow> rate = 0)
         \<and> (length gs = 1 \<longrightarrow> param_groups opt' = [PyFloat rate, PyFloat (10 * rate)])
         \<and> (length gs \<noteq> 1 \<longrightarrow> param_groups opt' = PyFloat rate # gs)
         \<and> opt_state opt' = opt_state opt"
proof (cases "int i < M")
  case True
  then have base: "0 < 1 - real i / real_of_int M"
    using M by simp
  have pw: "py_pow (1 - real i / real_of_int M) P
              = Inr (PyFloat ((1 - real i / real_of_int M) powr P))"
    using base by (rule py_pow_pos)
  have z: "i = 0 \<Longrightarrow> (1 - real i / real_of_int M) powr P = 1"
    by simp
  show ?thesis
    using M True groups pw z
    unfolding poly_lr_scheduler_def L0 [symmetric] i [symmetric] Mdef [symmetric] Pdef [symmetric]
    by (cases gs) (auto simp: Let_def py_scale_def)
next
  case False
  with iM have eq: "int i = M" by simp
  then have iM': "real i = real_of_int M"
    by (metis of_int_of_nat_eq)
  have Ppos: "0 < P" using P eq M by auto
  have base: "1 - real i / real_of_int M = 0"
    using M iM' by simp
  have i0: "i \<noteq> 0" using eq M by auto
  show ?thesis
    using M eq groups py_pow_zero [OF Ppos] base i0
    unfolding poly_lr_scheduler_def L0 [symmetric] i [symmetric] Mdef [symmetric] Pdef [symmetric]
    by (cases gs) (auto simp: Let_def py_scale_def)
qed

theorem poly_lr_scheduler_rate_witness:
  "(0::int) < 1000 \<and> int 1000 \<le> 1000 \<and> (0::real) < 9 / 10
   \<and> param_groups (optim trainer0) = [PyFloat 0, PyFloat 0]
   \<and> (\<exists>opt'. poly_lr_scheduler cfg0 1000 (optim trainer0) None None None None = Inr opt'
         \<and> param_groups opt' = [PyFloat 0, PyFloat 0])"
proof -
  have a: "(0::int) < 1000" and b: "int 1000 \<le> 1000" and p: "1000 < nat 1000 \<or> (0::real) < 9 / 10"
    by simp_all
  have g: "param_groups (optim trainer0) = PyFloat 0 # [PyFloat 0]"
    by (simp add: trainer0_def)
  have l: "(1 / 4 :: real) = dflt (opt_lr cfg0) None" and i: "(1000::nat) = dflt 1000 None"
    and m: "(1000::int) = dflt (opt_iterations cfg0) None"
    and q: "(9 / 10 :: real) = dflt (opt_poly_power cfg0) None"
    by (simp_all add: dflt_def cfg0_def)
  from poly_lr_scheduler_rate [OF a b p g l i m q]
  obtain opt' rate where r: "poly_lr_scheduler cfg0 1000 (optim trainer0) None None None None = Inr opt'"
    "rate = 0" "param_groups opt' = [PyFloat rate, PyFloat (10 * rate)]"
    by auto
  then show ?thesis using g by simp
qed

section \<open>Evaluating the concrete run\<close>

lemma tab_0: "tab 0 f = []"
  by (simp add: tab_def)

lemma tab_Suc: "tab (Suc n) f = f 0 # tab n (\<lambda>i. f (Suc i))"
  by (simp add: tab_def upt_conv_Cons map_Suc_upt [symmetric] del: upt_Suc)

lemmas ev = tab_0 tab_Suc dim1_def dim2_def dim3_def eval_nat_numeral
lemmas act = then_do_def ret_def raise_def emit_def lift_def del_def

lemma env0_sel:
  "forward env0 tr p n x = Pair logits0 logits0" "ce env0 q y = 1" "fourier_mix env0 a b = a"
  "augment env0 x l = (x, l)" "optimizer_step env0 opt es live = (opt, live)"
  "source_dataloader env0 e = replicate 100 batch_s0"
  "target_dataloader env0 e = replicate 100 batch_t0"
  "target_val_dataloader env0 = []" "source_val_dataloader env0 = []"
  by (simp_all add: env0_def)

lemma cfg0_sel:
  "opt_lr cfg0 = 1 / 4" "opt_iterations cfg0 = 1000" "opt_poly_power cfg0 = 9 / 10"
  "num_target cfg0 = 1" "aux cfg0" "lam_aux cfg0 = 1 / 10" "lam_new cfg0 = 1"
  "lam_aug cfg0 = 0" "lam_fourier cfg0 = 0" "lam_cutmix cfg0 = 0" "\<not> source_fourier cfg0"
  "pseudobest_threshold cfg0 = 3 / 4" "pseudolabel_threshold cfg0 = 3 / 4"
  "train_flag cfg0" "resume_from_checkpoint cfg0" "\<not> class_16 cfg0"
  by (simp_all add: cfg0_def)

lemma softmax0: "softmax_dim1 logits0 = [[[[1/10], [1/2]], [[9/10], [1/2]]]]"
  by (simp add: softmax_dim1_def logits0_def ev)

lemma pseudo_best0: "pseudo_best cfg0 (P4 logits0) [[[0],[0]]] = Inr ([[[True],[False]]], [[[1],[0]]])"
  by (simp add: pseudo_best_def best_labels_def softmax_pred_def max_pred_def max_dim1_def softmax0 ev scores_def gt_def cfg0_sel where3_def bcast3_def bdim_def at3_def bix_def)

lemma hybrid0: "hybrid [[[True],[False]]] x_t0 x_s0 = Inr hyb0"
  by (simp add: hybrid_def where4_def bcast4_def bdim_def at4_def bix_def repeat_1311_def unsqueeze0_def x_t0_def x_s0_def ev hyb0_def)

lemma model0: "model env0 c self x = Pair logits0 logits0"
  by (simp add: model_def env0_sel)

lemma source0: "source_branch env0 cfg0 self batch_s0 batch_t0 =
    ([Forward True x_s0, Backward (11 / 10)],
     Inr (x_s0, [[[0], [0]]], [(''source_main'', 1), (''source_aux'', 1 / 10)]))"
  by (simp add: source_branch_def Let_def model0 unpack_def act aux_loss_def loss_def plus_aux_def
        record_losses_def batch_s0_def squeeze_dim1_def ev cfg0_sel env0_sel)

lemma self_best0: "self_best_branch env0 cfg0 self batch_t0 x_s0 [[[0], [0]]] =
    ([Forward False x_t0, Forward True hyb0, Backward (11 / 10)], Inr hyb0)"
  by (simp add: self_best_branch_def Let_def model0 unpack_def unpack2_def act loss_def
        batch_t0_def pseudo_best0 hybrid0 cfg0_sel env0_sel)

lemma pass0: "pseudo_label_pass env0 cfg0 self hyb0 =
    ([Forward False hyb0], Inr ([[[1], [- 1]]], Some [[[1], [- 1]]]))"
  by (simp add: pseudo_label_pass_def Let_def model0 unpack_def act max_dim1_def softmax0 ev
        scores_def gt_def where3_def bcast3_def bcast4_def bdim_def at3_def at4_def bix_def
        ignore_tensor_def either_mask_def cfg0_sel)

lemma losses0: "losses_phase env0 cfg0 self batch_s0 batch_t0 =
    ([Forward True x_s0, Backward (11 / 10), Forward False x_t0, Forward True hyb0,
      Backward (11 / 10), Forward False hyb0],
     Inr [(''source_main'', 1), (''source_aux'', 1 / 10)])"
  by (simp add: losses_phase_def source0 self_best0 pass0 act cfg0_sel)

section \<open>Tensor lemmas and the self-best policy\<close>

lemma length_tab: "length (tab n f) = n"
  by (simp add: tab_def)

lemma nth_tab: "i < n \<Longrightarrow> tab n f ! i = f i"
  by (simp add: tab_def)

lemma bix_id: "i < n \<Longrightarrow> bix n i = i"
  by (auto simp: bix_def)

lemma bdim_same: "bdim n n n = Some n"
  by (simp add: bdim_def)

lemma shaped3_dims:
  assumes "shaped3 a b c t" "0 < a"
  shows "length t = a" "dim1 t = b" "0 < b \<Longrightarrow> dim2 t = c"
  using assms by (cases t; cases "hd t"; auto simp: shaped3_def dim1_def dim2_def)+

lemma shaped3_nth:
  assumes "shaped3 a b c t" "i < a"
  shows "length (t ! i) = b" "j < b \<Longrightarrow> length (t ! i ! j) = c"
proof -
  have m: "t ! i \<in> set t" using assms by (simp add: shaped3_def)
  then show l: "length (t ! i) = b" using assms by (simp add: shaped3_def)
  assume "j < b"
  then have "t ! i ! j \<in> set (t ! i)" using l by simp
  then show "length (t ! i ! j) = c" using assms m by (auto simp: shaped3_def)
qed

lemma shaped4_dims:
  assumes "shaped4 a b c d t" "0 < a"
  shows "length t = a" "dim1 t = b" "0 < b \<Longrightarrow> dim2 t = c" "0 < b \<Longrightarrow> 0 < c \<Longrightarrow> dim3 t = d"
proof -
  from assms obtain p ps where t: "t = p # ps" and p: "shaped3 b c d p"
    by (cases t) (auto simp: shaped4_def)
  show "length t = a" using assms by (simp add: shaped4_def)
  show "dim1 t = b" using t p by (simp add: dim1_def shaped3_def)
  show "0 < b \<Longrightarrow> dim2 t = c" using t shaped3_dims(2) [OF p] by (simp add: dim2_def)
  show "0 < b \<Longrightarrow> 0 < c \<Longrightarrow> dim3 t = d" using t shaped3_dims(3) [OF p] by (simp add: dim3_def)
qed

lemma shaped4_nth:
  assumes "shaped4 a b c d t" "i < a"
  shows "shaped3 b c d (t ! i)"
  using assms by (auto simp: shaped4_def)

lemma shaped3_tab: "shaped3 a b c (tab a (\<lambda>i. tab b (\<lambda>j. tab c (f i j))))"
  by (auto simp: shaped3_def tab_def)

lemma shaped4_tab: "shaped4 a b c d (tab a (\<lambda>i. tab b (\<lambda>j. tab c (\<lambda>k. tab d (f i j k)))))"
  by (auto simp: shaped4_def shaped3_def tab_def)

lemma argmax_max: "xs \<noteq> [] \<Longrightarrow> argmax xs < length xs \<and> xs ! argmax xs = Max (set xs)"
proof (induction xs)
  case Nil
  then show ?case by simp
next
  case (Cons x xs)
  show ?case
  proof (cases "list_all (\<lambda>y. y \<le> x) xs")
    case True
    then have "Max (insert x (set xs)) = x"
      by (intro Max_eqI) (auto simp: list_all_iff)
    with True show ?thesis by simp
  next
    case False
    then obtain y where y: "y \<in> set xs" "x < y"
      by (auto simp: list_all_iff not_le)
    then have ne: "xs \<noteq> []" by auto
    have "x < Max (set xs)"
      using y by (meson List.finite_set Max_ge less_le_trans)
    then have "Max (insert x (set xs)) = Max (set xs)"
      using ne by (simp add: max_def)
    with False Cons.IH [OF ne] show ?thesis by simp
  qed
qed


lemma tab_cong: "(\<And>i. i < n \<Longrightarrow> f i = g i) \<Longrightarrow> tab n f = tab n g"
  by (simp add: tab_def)

lemma softmax_shaped:
  assumes "shaped4 B K H W out" "0 < B" "0 < K" "0 < H"
  shows "softmax_dim1 out =
           tab B (\<lambda>b. tab K (\<lambda>k. tab H (\<lambda>h. tab W (\<lambda>w.
             exp (out ! b ! k ! h ! w) / sum_list (tab K (\<lambda>j. exp (out ! b ! j ! h ! w)))))))"
  using shaped4_dims [OF assms(1,2)] assms(3,4) by (simp add: softmax_dim1_def)

lemma max_dim1_shaped:
  assumes "shaped4 B K H W p" "0 < B" "0 < K" "0 < H"
  shows "max_dim1 p =
           Inr (tab B (\<lambda>b. tab H (\<lambda>h. tab W (\<lambda>w. Max (set (scores (p ! b) h w))))),
                tab B (\<lambda>b. tab H (\<lambda>h. tab W (\<lambda>w. int (argmax (scores (p ! b) h w))))))"
  using shaped4_dims [OF assms(1,2)] assms(3,4) by (simp add: max_dim1_def)

lemma gt_tab:
  "gt (tab B (\<lambda>b. tab H (\<lambda>h. tab W (\<lambda>w. f b h w)))) T
     = tab B (\<lambda>b. tab H (\<lambda>h. tab W (\<lambda>w. T < f b h w)))"
  by (simp add: gt_def tab_def)

lemma where3_shaped:
  assumes m: "shaped3 B H W m" and l: "shaped3 B H W l" and y: "shaped3 B H W y"
    and B: "0 < B" and H: "0 < H"
  shows "where3 m l y =
           Inr (tab B (\<lambda>i. tab H (\<lambda>j. tab W (\<lambda>k.
                  if m ! i ! j ! k then l ! i ! j ! k else y ! i ! j ! k))))"
proof -
  note dm = shaped3_dims [OF m B] and dl = shaped3_dims [OF l B] and dy = shaped3_dims [OF y B]
  have at: "at3 t i j k = t ! i ! j ! k"
    if "length t = B" "dim1 t = H" "dim2 t = W" "i < B" "j < H" "k < W" for t :: "'b t3" and i j k
    using that by (simp add: at3_def bix_id)
  show ?thesis
    unfolding where3_def bcast3_def
    using dm dl dy H
    by (auto simp: bdim_same at intro!: tab_cong)
qed

lemma squeeze_dim1_id: "shaped3 B H W y \<Longrightarrow> 0 < B \<Longrightarrow> H \<noteq> 1 \<Longrightarrow> squeeze_dim1 y = y"
  using shaped3_dims(2) [of B H W y] by (simp add: squeeze_dim1_def)

lemma pseudo_best_shaped:
  assumes out: "shaped4 B K H W out" and y: "shaped3 B H W y"
    and B: "0 < B" and K: "0 < K" and H: "0 < H"
  shows "pseudo_best c (P4 out) y =
           Inr (tab B (\<lambda>b. tab H (\<lambda>h. tab W (\<lambda>w.
                  pseudobest_threshold c < Max (set (pixel_probs out b h w))))),
                tab B (\<lambda>b. tab H (\<lambda>h. tab W (\<lambda>w.
                  if pseudobest_threshold c < Max (set (pixel_probs out b h w))
                  then int (argmax (pixel_probs out b h w)) else y ! b ! h ! w))))"
proof -
  have sm: "shaped4 B K H W (softmax_dim1 out)"
    unfolding softmax_shaped [OF out B K H] by (rule shaped4_tab)
  have w: "where3
             (tab B (\<lambda>b. tab H (\<lambda>h. tab W (\<lambda>w.
                pseudobest_threshold c < Max (set (pixel_probs out b h w))))))
             (tab B (\<lambda>b. tab H (\<lambda>h. tab W (\<lambda>w. int (argmax (pixel_probs out b h w)))))) y
           = Inr (tab B (\<lambda>b. tab H (\<lambda>h. tab W (\<lambda>w.
                  if pseudobest_threshold c < Max (set (pixel_probs out b h w))
                  then int (argmax (pixel_probs out b h w)) else y ! b ! h ! w))))"
    by (subst where3_shaped [OF shaped3_tab shaped3_tab y B H])
       (auto simp: nth_tab intro!: tab_cong)
  show ?thesis
    by (simp add: pseudo_best_def best_labels_def softmax_pred_def max_pred_def
          max_dim1_shaped [OF sm B K H] gt_tab pixel_probs_def [symmetric] w)
qed

lemma pixel_probs_nth:
  assumes out: "shaped4 B K H W out" and "b < B" "h < H" "w < W" "k < K"
  shows "length (pixel_probs out b h w) = K"
    and "pixel_probs out b h w ! k
           = exp (out ! b ! k ! h ! w) / (\<Sum>j<K. exp (out ! b ! j ! h ! w))"
proof -
  have B: "0 < B" and K: "0 < K" and H: "0 < H" using assms by auto
  have s: "sum_list (tab K (\<lambda>j. exp (out ! b ! j ! h ! w))) = (\<Sum>j<K. exp (out ! b ! j ! h ! w))"
    by (simp add: tab_def interv_sum_list_conv_sum_set_nat atLeast0LessThan)
  show "length (pixel_probs out b h w) = K"
    using assms by (simp add: pixel_probs_def scores_def softmax_shaped [OF out B K H] nth_tab length_tab)
  show "pixel_probs out b h w ! k
           = exp (out ! b ! k ! h ! w) / (\<Sum>j<K. exp (out ! b ! j ! h ! w))"
    using assms by (simp add: pixel_probs_def scores_def softmax_shaped [OF out B K H] nth_tab length_tab s)
qed

text \<open>
  Claim C3. On a prediction of shape \<open>[B, K, H, W]\<close> and source labels of shape
  \<open>[B, H, W]\<close> (images more than one pixel high, so that \<open>squeeze\<close> leaves the labels
  as they are) the self-best policy succeeds; at every pixel the mask is true iff the
  largest softmax probability exceeds the self-best threshold, and the label is the index
  of the first largest probability where the mask is true and the source label at the
  same position where it is false. With threshold 1/2, confidence 9/10 for class 7 gives
  label 7 and mask true, and confidence 3/10 gives the source label.
\<close>

theorem self_best_policy:
  assumes out: "shaped4 B K H W out" and y: "shaped3 B H W y" and H1: "H \<noteq> 1"
    and b: "b < B" and h: "h < H" and w: "w < W" and K: "0 < K"
  shows "\<exists>mask_1 label_1.
           pseudo_best c (P4 out) (squeeze_dim1 y) = Inr (mask_1, label_1)
         \<and> mask_1 ! b ! h ! w = (pseudobest_threshold c < Max (set (pixel_probs out b h w)))
         \<and> label_1 ! b ! h ! w =
             (if mask_1 ! b ! h ! w then int (argmax (pixel_probs out b h w)) else y ! b ! h ! w)
         \<and> argmax (pixel_probs out b h w) < K
         \<and> pixel_probs out b h w ! argmax (pixel_probs out b h w) = Max (set (pixel_probs out b h w))
         \<and> (\<forall>k<K. pixel_probs out b h w ! k
                     = exp (out ! b ! k ! h ! w) / (\<Sum>j<K. exp (out ! b ! j ! h ! w)))
         \<and> (pseudobest_threshold c = 1 / 2 \<and> Max (set (pixel_probs out b h w)) = 9 / 10
              \<and> argmax (pixel_probs out b h w) = 7
            \<longrightarrow> mask_1 ! b ! h ! w \<and> label_1 ! b ! h ! w = 7)
         \<and> (pseudobest_threshold c = 1 / 2 \<and> Max (set (pixel_probs out b h w)) = 3 / 10
            \<longrightarrow> \<not> mask_1 ! b ! h ! w \<and> label_1 ! b ! h ! w = y ! b ! h ! w)"
proof -
  have B: "0 < B" and H: "0 < H" using b h by auto
  have len: "length (pixel_probs out b h w) = K"
    using pixel_probs_nth(1) [OF out b h w] K by blast
  then have ne: "pixel_probs out b h w \<noteq> []" using K by auto
  note am = argmax_max [OF ne]
  show ?thesis
    unfolding squeeze_dim1_id [OF y B H1] pseudo_best_shaped [OF out y B K H]
    using b h w am len pixel_probs_nth(2) [OF out b h w]
    by (simp add: nth_tab)
qed

theorem self_best_policy_witness:
  "shaped4 1 8 2 1 logits8 \<and> shaped3 1 2 1 y8 \<and> (2::nat) \<noteq> 1 \<and> (0::nat) < 1 \<and> (0::nat) < 2
   \<and> (0::nat) < 8
   \<and> (\<exists>mask_1 label_1.
         pseudo_best (cfg0\<lparr>pseudobest_threshold := 1 / 2\<rparr>) (P4 logits8) (squeeze_dim1 y8)
           = Inr (mask_1, label_1)
       \<and> mask_1 ! 0 ! 0 ! 0 \<and> label_1 ! 0 ! 0 ! 0 = 7
       \<and> \<not> mask_1 ! 0 ! 1 ! 0 \<and> label_1 ! 0 ! 1 ! 0 = 5)"
proof -
  have s4: "shaped4 1 8 2 1 logits8"
    by (simp add: shaped4_def shaped3_def logits8_def)
  have s3: "shaped3 1 2 1 y8"
    by (simp add: shaped3_def y8_def)
  have p0: "pixel_probs logits8 0 0 0 = [1/70, 1/70, 1/70, 1/70, 1/70, 1/70, 1/70, 9/10]"
    by (simp add: pixel_probs_def scores_def softmax_dim1_def logits8_def ev)
  have p1: "pixel_probs logits8 0 1 0 = [3/10, 1/10, 1/10, 1/10, 1/10, 1/10, 1/10, 1/10]"
    by (simp add: pixel_probs_def scores_def softmax_dim1_def logits8_def ev)
  have m0: "Max (set (pixel_probs logits8 0 0 0)) = 9 / 10" "argmax (pixel_probs logits8 0 0 0) = 7"
    unfolding p0 by simp_all
  have m1: "Max (set (pixel_probs logits8 0 1 0)) = 3 / 10"
    unfolding p1 by simp
  have T: "pseudobest_threshold (cfg0\<lparr>pseudobest_threshold := 1 / 2\<rparr>) = 1 / 2"
    by simp
  have y: "y8 ! 0 ! 1 ! 0 = 5" by (simp add: y8_def)
  from self_best_policy [OF s4 s3, of 0 0 0 "cfg0\<lparr>pseudobest_threshold := 1 / 2\<rparr>"] m0 T
  obtain mask_1 label_1 where
    r: "pseudo_best (cfg0\<lparr>pseudobest_threshold := 1 / 2\<rparr>) (P4 logits8) (squeeze_dim1 y8)
          = Inr (mask_1, label_1)"
    and a: "mask_1 ! 0 ! 0 ! 0" "label_1 ! 0 ! 0 ! 0 = 7"
    by auto
  from self_best_policy [OF s4 s3, of 0 1 0 "cfg0\<lparr>pseudobest_threshold := 1 / 2\<rparr>"] m1 T r y
  have "\<not> mask_1 ! 0 ! 1 ! 0" "label_1 ! 0 ! 1 ! 0 = 5"
    by auto
  with r a s4 s3 show ?thesis by simp
qed

section \<open>Broadcasting on equal shapes, and the confidence masks\<close>

lemma bcast3_shaped:
  assumes a: "shaped3 B H W a" and b: "shaped3 B H W b" and c: "shaped3 B H W c"
    and B: "0 < B" and H: "0 < H"
  shows "bcast3 f a b c =
           Inr (tab B (\<lambda>i. tab H (\<lambda>j. tab W (\<lambda>k.
                  f (a ! i ! j ! k) (b ! i ! j ! k) (c ! i ! j ! k)))))"
proof -
  note da = shaped3_dims [OF a B] and db = shaped3_dims [OF b B] and dc = shaped3_dims [OF c B]
  have at: "at3 t i j k = t ! i ! j ! k"
    if "length t = B" "dim1 t = H" "dim2 t = W" "i < B" "j < H" "k < W" for t :: "'x t3" and i j k
    using that by (simp add: at3_def bix_id)
  show ?thesis
    unfolding bcast3_def
    using da db dc H
    by (auto simp: bdim_same at intro!: tab_cong)
qed

lemma bcast4_shaped:
  assumes a: "shaped4 B C H W a" and b: "shaped4 B C H W b" and c: "shaped4 B C H W c"
    and B: "0 < B" and C: "0 < C" and H: "0 < H"
  shows "bcast4 f a b c =
           Inr (tab B (\<lambda>i. tab C (\<lambda>j. tab H (\<lambda>k. tab W (\<lambda>l.
                  f (a ! i ! j ! k ! l) (b ! i ! j ! k ! l) (c ! i ! j ! k ! l))))))"
proof -
  note da = shaped4_dims [OF a B] and db = shaped4_dims [OF b B] and dc = shaped4_dims [OF c B]
  have at: "at4 t i j k l = t ! i ! j ! k ! l"
    if "length t = B" "dim1 t = C" "dim2 t = H" "dim3 t = W" "i < B" "j < C" "k < H" "l < W"
    for t :: "'x t4" and i j k l
    using that by (simp add: at4_def bix_id)
  show ?thesis
    unfolding bcast4_def
    using da db dc C H
    by (auto simp: bdim_same at intro!: tab_cong)
qed

lemma shaped3_gt: "shaped3 B H W m \<Longrightarrow> shaped3 B H W (gt m T)"
  by (auto simp: shaped3_def gt_def)

lemma gt_nth:
  assumes "shaped3 B H W m" "i < B" "j < H" "k < W"
  shows "gt m T ! i ! j ! k = (T < m ! i ! j ! k)"
  using assms shaped3_nth [OF assms(1,2)] by (simp add: gt_def shaped3_def)

lemma list_all2_tab: "(\<And>i. i < n \<Longrightarrow> P (f i) (g i)) \<Longrightarrow> list_all2 P (tab n f) (tab n g)"
  by (simp add: tab_def list.rel_map list_all2_same)

lemma either_mask_shaped:
  assumes a: "shaped3 B H W m1" and b: "shaped3 B H W m2" and B: "0 < B" and H: "0 < H"
  shows "either_mask T m1 m2 =
           Inr (tab B (\<lambda>i. tab H (\<lambda>j. tab W (\<lambda>k. T < m1 ! i ! j ! k \<or> T < m2 ! i ! j ! k))))"
  unfolding either_mask_def
    bcast3_shaped [OF shaped3_gt [OF a] shaped3_gt [OF b] shaped3_gt [OF b] B H]
  by (auto simp: gt_nth [OF a] gt_nth [OF b] intro!: tab_cong)

lemma gt_subset: "T1 \<le> T2 \<Longrightarrow> mask_subset (gt m T2) (gt m T1)"
  by (auto simp: mask_subset_def gt_def list.rel_map list_all2_same)

text \<open>
  Claim C9. For thresholds \<open>T1 \<le> T2\<close> and fixed predictions, the mask at \<open>T2\<close> selects
  a subset of the pixels of the mask at \<open>T1\<close>: for the mask \<open>maxpred > T\<close> of either
  policy, for the mask the self-best policy returns, and for the mask
  \<open>(maxpred_1 > T) | (maxpred_2 > T)\<close> of the original policy with an auxiliary head.
\<close>

theorem mask_monotone:
  assumes T: "T1 \<le> T2" and a: "shaped3 B H W maxpred_1" and b: "shaped3 B H W maxpred_2"
    and B: "0 < B" and H: "0 < H"
  shows "mask_subset (gt maxpred_1 T2) (gt maxpred_1 T1)
       \<and> (\<forall>p y m1 l1 m2 l2.
            best_labels T1 p y = Inr (m1, l1) \<and> best_labels T2 p y = Inr (m2, l2)
            \<longrightarrow> mask_subset m2 m1)
       \<and> (\<exists>M1 M2. either_mask T1 maxpred_1 maxpred_2 = Inr M1
                 \<and> either_mask T2 maxpred_1 maxpred_2 = Inr M2 \<and> mask_subset M2 M1)"
proof (intro conjI)
  show "mask_subset (gt maxpred_1 T2) (gt maxpred_1 T1)"
    using T by (rule gt_subset)
  show "\<forall>p y m1 l1 m2 l2.
            best_labels T1 p y = Inr (m1, l1) \<and> best_labels T2 p y = Inr (m2, l2)
            \<longrightarrow> mask_subset m2 m1"
    using gt_subset [OF T]
    by (auto simp: best_labels_def Let_def split: sum.splits prod.splits)
  show "\<exists>M1 M2. either_mask T1 maxpred_1 maxpred_2 = Inr M1
                 \<and> either_mask T2 maxpred_1 maxpred_2 = Inr M2 \<and> mask_subset M2 M1"
    unfolding either_mask_shaped [OF a b B H] mask_subset_def
    using T by (auto intro!: list_all2_tab)
qed

theorem mask_monotone_witness:
  "(1 / 4 :: real) \<le> 3 / 4 \<and> shaped3 1 2 1 [[[9 / 10 :: real], [1 / 2]]] \<and> (0::nat) < 1
   \<and> (0::nat) < 2
   \<and> mask_subset (gt [[[9 / 10], [1 / 2]]] (3 / 4)) (gt [[[9 / 10], [1 / 2]]] (1 / 4))
   \<and> gt [[[9 / 10], [1 / 2]]] (3 / 4) = [[[True], [False]]]
   \<and> gt [[[9 / 10], [1 / 2]]] (1 / 4) = [[[True], [True]]]"
proof -
  have T: "(1 / 4 :: real) \<le> 3 / 4" by simp
  have s: "shaped3 1 2 1 [[[9 / 10 :: real], [1 / 2]]]" by (simp add: shaped3_def)
  have B: "(0::nat) < 1" and H: "(0::nat) < 2" by simp_all
  from mask_monotone [OF T s s B H]
  have "mask_subset (gt [[[9 / 10], [1 / 2]]] (3 / 4)) (gt [[[9 / 10], [1 / 2]]] (1 / 4))"
    by blast
  then show ?thesis using s by (simp add: gt_def)
qed

section \<open>The hybrid image\<close>

lemma repeat_unsqueeze: "repeat_1311 (unsqueeze0 m) = [m @ m @ m]"
  by (simp add: repeat_1311_def unsqueeze0_def numeral_3_eq_3)

lemma hybrid_batch_one:
  assumes m: "shaped3 1 H W mask_1" and x: "shaped4 1 3 H W x"
    and xs: "shaped4 1 3 H W x_source" and H: "0 < H"
  shows "\<exists>hy. hybrid mask_1 x x_source = Inr hy \<and> shaped4 1 3 H W hy
           \<and> (\<forall>c<3. \<forall>i<H. \<forall>j<W.
                 hy ! 0 ! c ! i ! j =
                   (if mask_1 ! 0 ! i ! j then x ! 0 ! c ! i ! j else x_source ! 0 ! c ! i ! j))"
proof -
  from m obtain p where p: "mask_1 = [p]"
    by (cases mask_1) (auto simp: shaped3_def)
  have r: "repeat_1311 (unsqueeze0 mask_1) = [[p, p, p]]"
    by (simp add: repeat_unsqueeze p)
  have s: "shaped4 1 3 H W [[p, p, p]]"
    using m by (simp add: shaped4_def shaped3_def p)
  have n: "[p, p, p] ! c = p" if "c < 3" for c
    using that by (auto simp: numeral_3_eq_3 less_Suc_eq)
  have e: "hybrid mask_1 x x_source =
             Inr (tab 1 (\<lambda>i. tab 3 (\<lambda>j. tab H (\<lambda>k. tab W (\<lambda>l.
                    if [[p, p, p]] ! i ! j ! k ! l then x ! i ! j ! k ! l
                    else x_source ! i ! j ! k ! l)))))"
    unfolding hybrid_def where4_def r
    by (rule bcast4_shaped [OF s x xs _ _ H]) simp_all
  show ?thesis
    unfolding e
    by (rule exI, intro conjI, rule refl, rule shaped4_tab) (auto simp: nth_tab n p)
qed

lemma hybrid_batch_many:
  assumes m: "shaped3 B H W mask_1" and x: "shaped4 B 3 H W x" and B: "2 \<le> B"
  shows "hybrid mask_1 x x_source = Inl RuntimeError"
proof -
  have B0: "0 < B" using B by simp
  have d: "dim1 (repeat_1311 (unsqueeze0 mask_1)) = 3 * B"
    using m by (simp add: repeat_unsqueeze dim1_def shaped3_def)
  have dx: "dim1 x = 3"
    using shaped4_dims(2) [OF x B0] .
  have "bdim (3 * B) 3 n = None" for n
    using B by (simp add: bdim_def)
  then show ?thesis
    unfolding hybrid_def where4_def bcast4_def d dx
    by (simp split: option.splits)
qed

lemma env2_sel:
  "forward env2 tr p n x = Pair logits2 logits2" "ce env2 q y = 1"
  "optimizer_step env2 opt es live = (opt, live)"
  by (simp_all add: env2_def env0_sel)

lemma softmax2: "softmax_dim1 logits2 =
    [[[[1/10], [1/2]], [[9/10], [1/2]]], [[[1/10], [1/2]], [[9/10], [1/2]]]]"
  by (simp add: softmax_dim1_def logits2_def ev)

lemma pseudo_best2: "pseudo_best cfg0 (P4 logits2) [[[0], [0]], [[0], [0]]] =
    Inr ([[[True], [False]], [[True], [False]]], [[[1], [0]], [[1], [0]]])"
  by (simp add: pseudo_best_def best_labels_def softmax_pred_def max_pred_def max_dim1_def
        softmax2 ev scores_def gt_def cfg0_sel where3_def bcast3_def bdim_def at3_def bix_def)

lemma hybrid2: "hybrid [[[True], [False]], [[True], [False]]] x_t2 x_s2 = Inl RuntimeError"
  by (rule hybrid_batch_many [where B = 2 and H = 2 and W = 1])
     (simp_all add: shaped3_def shaped4_def x_t2_def)

lemma scheduler0:
  "poly_lr_scheduler cfg0 0 \<lparr>param_groups = [PyFloat 0, PyFloat 0], opt_state = []\<rparr>
      None None None None
     = Inr \<lparr>param_groups = [PyFloat (1 / 4), PyFloat (5 / 2)], opt_state = []\<rparr>"
  by (simp add: poly_lr_scheduler_def dflt_def cfg0_sel py_pow_def py_scale_def)

lemma losses2: "losses_phase env2 cfg0 self batch_s2 batch_t2 =
    ([Forward True x_s2, Backward (11 / 10), Forward False x_t2], Inl RuntimeError)"
  by (simp add: losses_phase_def source_branch_def self_best_branch_def Let_def model_def
        env2_sel unpack_def unpack2_def act aux_loss_def loss_def plus_aux_def record_losses_def
        batch_s2_def batch_t2_def squeeze_dim1_def dim1_def cfg0_sel pseudo_best2 hybrid2)

text \<open>
  Claim C1, at a batch of two target images and two source images of three channels: the
  mask-generation pass runs without gradient tracking, the labels are computed, and the
  construction of the hybrid image raises, because the mask, unsqueezed at dimension 0 and
  tiled along dimension 1, has shape \<open>[1, 6, H, W]\<close> against images of shape
  \<open>[2, 3, H, W]\<close>. The hybrid image is never forwarded and the step ends there.
  (\<open>hybrid_batch_one\<close> is the claim for batches of one image, \<open>hybrid_batch_many\<close>
  the failure for every larger batch.)
\<close>

theorem hybrid_two_images_raises:
  "train_step env2 cfg0 0 batch_s2 batch_t2 trainer0 =
     (Raise RuntimeError,
      trainer0\<lparr>training := True,
               optim := \<lparr>param_groups = [PyFloat (1 / 4), PyFloat (5 / 2)], opt_state = []\<rparr>,
               trace := [AddScalar ''train/lr'' (PyFloat (1 / 4)) 0, Forward True x_s2,
                         Backward (11 / 10), Forward False x_t2]\<rparr>)"
  by (simp add: train_step_def Let_def trainer0_def scheduler0 losses2)

section \<open>The loss terms of a step\<close>

lemma then_do_Inr:
  "then_do m f = (es, Inr r) \<longleftrightarrow>
     (\<exists>es1 v es2. m = (es1, Inr v) \<and> f v = (es2, Inr r) \<and> es = es1 @ es2)"
  by (auto simp: then_do_def split: prod.splits sum.splits)

lemma act_Inr:
  "ret v = (es, Inr r) \<longleftrightarrow> es = [] \<and> r = v"
  "raise e = (es, Inr r) \<longleftrightarrow> False"
  "emit ev = (es, Inr u) \<longleftrightarrow> es = [ev]"
  "lift x = (es, Inr r) \<longleftrightarrow> es = [] \<and> x = Inr r"
  by (auto simp: ret_def raise_def emit_def lift_def)

lemma del_Inr: "del v = (es, Inr u) \<longleftrightarrow> es = [] \<and> v \<noteq> None"
  by (cases v) (auto simp: del_def act_Inr)

lemma aux_loss_Inr:
  "aux_loss env c p y w = (es, Inr r) \<Longrightarrow> es = [] \<and> (r \<noteq> None \<longleftrightarrow> aux c)"
  by (auto simp: aux_loss_def then_do_Inr act_Inr split: if_splits option.splits)

lemma unpack_simps:
  "unpack (Pair a b) = (a, Some b)" "unpack (Single t) = (t, None)"
  by (simp_all add: unpack_def)

lemma loss_Some: "loss env (Some p) l = Inr v \<longleftrightarrow> v = ce env p l"
  by (auto simp: loss_def)

lemma loss_unpack_snd:
  "loss env (snd (unpack p)) l = Inr v \<longleftrightarrow> (\<exists>a b. p = Pair a b \<and> v = ce env b l)"
  by (cases p) (auto simp: unpack_def loss_def)

lemma source_branch_ok:
  assumes "source_branch env c self batch_s batch_t = (es, Inr (x_source, y, losses))"
  shows "aux c \<and> x_source = fst batch_s \<and> y = squeeze_dim1 (snd batch_s)
       \<and> (\<exists>x v. es = (if source_fourier c then [FourierMix] else []) @ [Forward True x, Backward v])
       \<and> map fst losses = [''source_main'', ''source_aux'']"
  using assms
  by (auto simp: source_branch_def Let_def then_do_Inr act_Inr del_Inr record_losses_def
           case_prod_beta dest!: aux_loss_Inr split: if_splits)

lemma self_best_branch_ok:
  assumes "self_best_branch env c self batch_t x_source y = (es, Inr x)"
  shows "\<exists>main auxp mask_1 label_1 p1 p2.
           unpack2 (model env c self (fst batch_t)) = Inr (p1, p2)
         \<and> pseudo_best c p1 y = Inr (mask_1, label_1)
         \<and> hybrid mask_1 (fst batch_t) x_source = Inr x
         \<and> model env c self x = Pair main auxp
         \<and> es = [Forward False (fst batch_t), Forward True x,
                  Backward (ce env main label_1 * lam_new c
                            + lam_aux c * ce env auxp label_1 * lam_new c)]"
  using assms
  by (auto simp: self_best_branch_def Let_def then_do_Inr act_Inr loss_Some loss_unpack_snd
           unpack_simps case_prod_beta)

lemma pseudo_label_pass_ok:
  assumes "pseudo_label_pass env c self x = (es, Inr r)"
  shows "es = [Forward False x]"
  using assms
  by (auto simp: pseudo_label_pass_def Let_def then_do_Inr act_Inr case_prod_beta
           split: if_splits option.splits)

lemma then_do_ret: "then_do (ret v) f = f v"
  by (simp add: then_do_def ret_def split: prod.splits)

lemma then_doE:
  assumes "then_do m f = (es, Inr r)"
  obtains es1 v es2 where "m = (es1, Inr v)" "f v = (es2, Inr r)" "es = es1 @ es2"
  using assms unfolding then_do_Inr by blast

text \<open>
  Claim C2, as amended. With no consistency weight positive, a step whose loss terms all
  succeed runs exactly two backward passes (source and self-best), calls neither
  \<open>augment\<close> nor \<open>cutmix_combine\<close>, calls \<open>fourier_mix\<close> exactly when \<open>source_fourier\<close>
  is set (for the source image), records the source losses only, and still runs the
  original pseudo-label pass: its forward pass without gradient tracking is the last event
  of the loss terms.
\<close>

theorem zero_weights_step:
  assumes w: "lam_aug c \<le> 0" "lam_fourier c \<le> 0" "lam_cutmix c \<le> 0"
    and ok: "losses_phase env c self batch_s batch_t = (es, Inr losses)"
  shows "length (filter is_backward es) = 2
       \<and> Augment \<notin> set es \<and> CutMix \<notin> set es
       \<and> (FourierMix \<in> set es \<longleftrightarrow> source_fourier c)
       \<and> (\<exists>es' x r. es = es' @ [Forward False x]
                   \<and> pseudo_label_pass env c self x = ([Forward False x], Inr r))
       \<and> map fst losses = [''source_main'', ''source_aux'']"
proof -
  have n: "\<not> 0 < lam_aug c" "\<not> 0 < lam_fourier c" "\<not> 0 < lam_cutmix c"
    using w by simp_all
  have "then_do (source_branch env c self batch_s batch_t) (\<lambda>(x_source, y, losses).
          then_do (self_best_branch env c self batch_t x_source y) (\<lambda>x.
          then_do (pseudo_label_pass env c self x) (\<lambda>(label_1, label_2). ret losses)))
        = (es, Inr losses)"
    using ok by (simp add: losses_phase_def n then_do_ret)
  then obtain es1 v1 es' where
    s: "source_branch env c self batch_s batch_t = (es1, Inr v1)"
    and f1: "(case v1 of (x_source, y, losses) \<Rightarrow>
               then_do (self_best_branch env c self batch_t x_source y) (\<lambda>x.
               then_do (pseudo_label_pass env c self x) (\<lambda>(label_1, label_2). ret losses)))
             = (es', Inr losses)"
    and es: "es = es1 @ es'"
    by (rule then_doE)
  obtain x_source y l1 where v1: "v1 = (x_source, y, l1)"
    by (cases v1)
  from f1 have "then_do (self_best_branch env c self batch_t x_source y) (\<lambda>x.
               then_do (pseudo_label_pass env c self x) (\<lambda>(label_1, label_2). ret l1))
             = (es', Inr losses)"
    by (simp add: v1)
  then obtain es2 x es'' where
    b: "self_best_branch env c self batch_t x_source y = (es2, Inr x)"
    and f2: "then_do (pseudo_label_pass env c self x) (\<lambda>(label_1, label_2). ret l1)
               = (es'', Inr losses)"
    and es': "es' = es2 @ es''"
    by (rule then_doE)
  from f2 obtain es3 r es4 where
    p: "pseudo_label_pass env c self x = (es3, Inr r)"
    and f3: "(case r of (label_1, label_2) \<Rightarrow> ret l1) = (es4, Inr losses)"
    and es'': "es'' = es3 @ es4"
    by (rule then_doE)
  from f3 have l: "losses = l1" and e4: "es4 = []"
    by (simp_all add: case_prod_beta act_Inr)
  from pseudo_label_pass_ok [OF p] have e3: "es3 = [Forward False x]" .
  note sb = source_branch_ok [OF s [unfolded v1]]
  from sb have l1: "map fst l1 = [''source_main'', ''source_aux'']"
    by (elim conjE)
  from sb have "\<exists>x v. es1 = (if source_fourier c then [FourierMix] else [])
                            @ [Forward True x, Backward v]"
    by (elim conjE)
  then obtain x1 u1 where
    e1: "es1 = (if source_fourier c then [FourierMix] else []) @ [Forward True x1, Backward u1]"
    by (elim exE)
  from self_best_branch_ok [OF b] obtain u2 where
    e2: "es2 = [Forward False (fst batch_t), Forward True x, Backward u2]"
    by (elim exE conjE)
  have all: "es = (if source_fourier c then [FourierMix] else [])
                  @ [Forward True x1, Backward u1, Forward False (fst batch_t), Forward True x,
                     Backward u2, Forward False x]"
    by (simp add: es es' es'' e1 e2 e3 e4)
  have "es = (es1 @ es2) @ [Forward False x]"
    by (simp add: es es' es'' e3 e4)
  moreover have "pseudo_label_pass env c self x = ([Forward False x], Inr r)"
    using p e3 by simp
  ultimately have pass: "\<exists>es' x r. es = es' @ [Forward False x]
                   \<and> pseudo_label_pass env c self x = ([Forward False x], Inr r)"
    by blast
  have count: "length (filter is_backward es) = 2"
    and none: "Augment \<notin> set es" "CutMix \<notin> set es" "FourierMix \<in> set es \<longleftrightarrow> source_fourier c"
    unfolding all by simp_all
  from count none pass l1 show ?thesis unfolding l by (intro conjI)
qed


theorem zero_weights_step_witness:
  "lam_aug cfg0 \<le> 0 \<and> lam_fourier cfg0 \<le> 0 \<and> lam_cutmix cfg0 \<le> 0
   \<and> losses_phase env0 cfg0 trainer0 batch_s0 batch_t0 =
       ([Forward True x_s0, Backward (11 / 10), Forward False x_t0, Forward True hyb0,
         Backward (11 / 10), Forward False hyb0],
        Inr [(''source_main'', 1), (''source_aux'', 1 / 10)])
   \<and> length (filter is_backward
        [Forward True x_s0, Backward (11 / 10), Forward False x_t0, Forward True hyb0,
         Backward (11 / 10), Forward False hyb0]) = 2"
proof -
  have w: "lam_aug cfg0 \<le> 0" "lam_fourier cfg0 \<le> 0" "lam_cutmix cfg0 \<le> 0"
    by (simp_all add: cfg0_sel)
  note r = zero_weights_step [OF w losses0 [of trainer0]]
  from r have "length (filter is_backward
        [Forward True x_s0, Backward (11 / 10), Forward False x_t0, Forward True hyb0,
         Backward (11 / 10), Forward False hyb0]) = 2"
    by (rule conjunct1)
  with w losses0 [of trainer0] show ?thesis by (intro conjI)
qed

text \<open>
  Claim C2 as stated fails on the concrete run: every consistency weight is zero, and the
  loss terms of the step end with the events of the original pseudo-label pass, a forward
  pass of the model on the hybrid image.
\<close>

theorem pseudo_label_pass_not_skipped:
  "lam_aug cfg0 = 0 \<and> lam_fourier cfg0 = 0 \<and> lam_cutmix cfg0 = 0
   \<and> pseudo_label_pass env0 cfg0 trainer0 hyb0
       = ([Forward False hyb0], Inr ([[[1], [- 1]]], Some [[[1], [- 1]]]))
   \<and> fst (losses_phase env0 cfg0 trainer0 batch_s0 batch_t0)
       = fst (source_branch env0 cfg0 trainer0 batch_s0 batch_t0)
         @ fst (self_best_branch env0 cfg0 trainer0 batch_t0 x_s0 [[[0], [0]]])
         @ fst (pseudo_label_pass env0 cfg0 trainer0 hyb0)"
  unfolding losses0 source0 self_best0 pass0 by (simp add: cfg0_sel)


text \<open>
  Claim C6, at the first step of the concrete run: two losses are back-propagated, the
  source loss and the self-best loss, but only the two parts of the source loss are
  recorded and logged; the self-best loss is recorded under no name, and the summed loss
  is computed and logged nowhere.
\<close>

theorem self_best_loss_not_recorded:
  "train_step env0 cfg0 0 batch_s0 batch_t0 trainer0 =
     (Normal,
      trainer0\<lparr>iter := 1, training := True,
               ema := \<lparr>shadow = [(''w'', [1 / 2])], backup = [], decay = 1 / 2,
                       param_keys = [''w'']\<rparr>,
               optim := \<lparr>param_groups = [PyFloat (1 / 4), PyFloat (5 / 2)], opt_state = []\<rparr>,
               trace := [AddScalar ''train/lr'' (PyFloat (1 / 4)) 0,
                         Forward True x_s0, Backward (11 / 10),
                         Forward False x_t0, Forward True hyb0, Backward (11 / 10),
                         Forward False hyb0,
                         OptimizerStep, ZeroGrad, EmaUpdateParams,
                         AddScalar ''train/source_main'' (PyFloat 1) 0,
                         AddScalar ''train/source_aux'' (PyFloat (1 / 10)) 0,
                         LogLosses [(''source_main'', 1), (''source_aux'', 1 / 10)],
                         EmaUpdateBuffer]\<rparr>)"
  by (simp add: train_step_def Let_def trainer0_def scheduler0 losses0 env0_sel cfg0_sel
        update_params_def update_buffer_def)

text \<open>
  Claim C10. The self-best branch does not read the auxiliary-head flag: it is the same
  computation whatever the flag. When it succeeds the model has returned a pair on the
  hybrid image and the loss back-propagated is the main cross-entropy plus the weighted
  auxiliary cross-entropy, both scaled by the self-best weight. With a model that
  returns a single prediction on every input the branch raises.
\<close>

theorem self_best_needs_pair:
  "self_best_branch env (c\<lparr>aux := flag\<rparr>) self batch_t x_source y
     = self_best_branch env c self batch_t x_source y
   \<and> (\<forall>es x. self_best_branch env c self batch_t x_source y = (es, Inr x) \<longrightarrow>
        (\<exists>main auxp label_1.
            model env c self x = Pair main auxp
          \<and> es = [Forward False (fst batch_t), Forward True x,
                   Backward (ce env main label_1 * lam_new c
                             + lam_aux c * ce env auxp label_1 * lam_new c)]))
   \<and> ((\<forall>x. \<exists>t. model env c self x = Single t) \<longrightarrow>
        (\<exists>e. snd (self_best_branch env c self batch_t x_source y) = Inl e))"
proof (intro conjI allI impI)
  show "self_best_branch env (c\<lparr>aux := flag\<rparr>) self batch_t x_source y
          = self_best_branch env c self batch_t x_source y"
    by (simp add: self_best_branch_def model_def pseudo_best_def)
next
  fix es x
  assume "self_best_branch env c self batch_t x_source y = (es, Inr x)"
  from self_best_branch_ok [OF this]
  show "\<exists>main auxp label_1.
            model env c self x = Pair main auxp
          \<and> es = [Forward False (fst batch_t), Forward True x,
                   Backward (ce env main label_1 * lam_new c
                             + lam_aux c * ce env auxp label_1 * lam_new c)]"
    by blast
next
  assume single: "\<forall>x. \<exists>t. model env c self x = Single t"
  show "\<exists>e. snd (self_best_branch env c self batch_t x_source y) = Inl e"
  proof (cases "snd (self_best_branch env c self batch_t x_source y)")
    case (Inl e)
    then show ?thesis by blast
  next
    case (Inr x)
    then have "self_best_branch env c self batch_t x_source y
                 = (fst (self_best_branch env c self batch_t x_source y), Inr x)"
      by (metis prod.collapse)
    from self_best_branch_ok [OF this] single show ?thesis
      by (metis prediction.distinct(1))
  qed
qed

lemma env_single_sel: "forward env_single tr p n x = Single logits0"
  by (simp add: env_single_def)

theorem self_best_needs_pair_witness:
  "(\<forall>x. \<exists>t. model env_single cfg0 trainer0 x = Single t)
   \<and> (\<exists>e. snd (self_best_branch env_single cfg0 trainer0 batch_t0 x_s0 [[[0], [0]]]) = Inl e)
   \<and> self_best_branch env_single cfg0 trainer0 batch_t0 x_s0 [[[0], [0]]]
       = ([Forward False x_t0], Inl ValueError)
   \<and> self_best_branch env0 cfg0 trainer0 batch_t0 x_s0 [[[0], [0]]]
       = ([Forward False x_t0, Forward True hyb0, Backward (11 / 10)], Inr hyb0)"
proof -
  have s: "\<forall>x. \<exists>t. model env_single cfg0 trainer0 x = Single t"
    by (simp add: model_def env_single_sel)
  have e: "self_best_branch env_single cfg0 trainer0 batch_t0 x_s0 [[[0], [0]]]
             = ([Forward False x_t0], Inl ValueError)"
    by (simp add: self_best_branch_def Let_def model_def env_single_sel unpack2_def act
          batch_t0_def logits0_def)
  from self_best_needs_pair [where env = env_single and c = cfg0 and self = trainer0
      and batch_t = batch_t0 and x_source = x_s0 and y = "[[[0], [0]]]"] s
  have "\<exists>e. snd (self_best_branch env_single cfg0 trainer0 batch_t0 x_s0 [[[0], [0]]]) = Inl e"
    by blast
  with s e self_best0 show ?thesis by simp
qed


section \<open>Loading a checkpoint: what is resumed\<close>

lemma sum_caseE:
  assumes "(case X of Inl e \<Rightarrow> Inl e | Inr v \<Rightarrow> F v) = Inr r"
  obtains v where "X = Inr v" "F v = Inr r"
  using assms by (cases X) auto


text \<open>
  Claim C7. A successful load changes the optimizer state or a progress counter only when
  both the training flag and the resume flag hold. When they hold, the optimizer state
  stored in the checkpoint is installed, and a checkpoint that carries an epoch and an
  iteration count sets both counters to 0: the stored counts are never read, so a counter
  after the load is 0 or what it was before.
\<close>

theorem load_checkpoint_resume:
  assumes "load_checkpoint env c checkpoint self = Inr self'"
  shows "(optim self' \<noteq> optim self \<longrightarrow> train_flag c \<and> resume_from_checkpoint c)
       \<and> (epoch self' \<noteq> epoch self \<or> iter self' \<noteq> iter self
            \<longrightarrow> train_flag c \<and> resume_from_checkpoint c)
       \<and> (train_flag c \<and> resume_from_checkpoint c \<longrightarrow>
            (\<forall>opt. lookup checkpoint ''optimizer'' = Some (CkOpt opt) \<longrightarrow> optim self' = opt)
          \<and> (lookup checkpoint ''epoch'' \<noteq> None \<and> lookup checkpoint ''iter'' \<noteq> None
               \<longrightarrow> epoch self' = 0 \<and> iter self' = 0))
       \<and> (epoch self' = 0 \<or> epoch self' = epoch self)
       \<and> (iter self' = 0 \<or> iter self' = iter self)"
proof -
  from assms obtain state_dict where
    "(let state_dict = map (\<lambda>(k, v). (replace_module k, v)) state_dict
      in case load_state_dict (has_module env) state_dict (model_state self) of
           Inl e \<Rightarrow> Inl e
         | Inr live \<Rightarrow>
             (let self = self\<lparr>model_state := live,
                             trace := trace self @ [LogInfo ''Model loaded successfully'']\<rparr>
              in if train_flag c \<and> resume_from_checkpoint c then
                   (case (case lookup checkpoint ''optimizer'' of
                            None \<Rightarrow> Inr self
                          | Some (CkOpt opt) \<Rightarrow>
                              Inr (self\<lparr>optim := opt,
                                     trace := trace self @
                                       [LogInfo ''Optimizer loaded successfully'']\<rparr>)
                          | Some _ \<Rightarrow> Inl TypeError) of
                      Inl e \<Rightarrow> Inl e
                    | Inr self \<Rightarrow>
                        if lookup checkpoint ''epoch'' \<noteq> None
                           \<and> lookup checkpoint ''iter'' \<noteq> None
                        then Inr (self\<lparr>epoch := 0, iter := 0,
                                    trace := trace self @
                                      [LogInfo ''Resuming training from epoch'']\<rparr>)
                        else Inr self)
                 else Inr (self\<lparr>trace := trace self @
                              [LogInfo ''Did not resume optimizer'']\<rparr>))) = Inr self'"
    unfolding load_checkpoint_def by (rule sum_caseE)
  then obtain live where
    t: "(let self = self\<lparr>model_state := live,
                             trace := trace self @ [LogInfo ''Model loaded successfully'']\<rparr>
              in if train_flag c \<and> resume_from_checkpoint c then
                   (case (case lookup checkpoint ''optimizer'' of
                            None \<Rightarrow> Inr self
                          | Some (CkOpt opt) \<Rightarrow>
                              Inr (self\<lparr>optim := opt,
                                     trace := trace self @
                                       [LogInfo ''Optimizer loaded successfully'']\<rparr>)
                          | Some _ \<Rightarrow> Inl TypeError) of
                      Inl e \<Rightarrow> Inl e
                    | Inr self \<Rightarrow>
                        if lookup checkpoint ''epoch'' \<noteq> None
                           \<and> lookup checkpoint ''iter'' \<noteq> None
                        then Inr (self\<lparr>epoch := 0, iter := 0,
                                    trace := trace self @
                                      [LogInfo ''Resuming training from epoch'']\<rparr>)
                        else Inr self)
                 else Inr (self\<lparr>trace := trace self @
                              [LogInfo ''Did not resume optimizer'']\<rparr>)) = Inr self'"
    unfolding Let_def by (rule sum_caseE)
  show ?thesis
  proof (cases "train_flag c \<and> resume_from_checkpoint c")
    case False
    with t show ?thesis by (auto simp: Let_def)
  next
    case True
    with t show ?thesis
      by (cases "lookup checkpoint ''optimizer''")
         (auto simp: Let_def split: if_splits ckval.splits)
  qed
qed

lemma ckpt0_eq:
  "ckpt0 = [(''epoch'', CkInt 4), (''iter'', CkInt 1001), (''state_dict'', CkDict [(''w'', [1])]),
            (''shadow'', CkDict [(''w'', [0])]),
            (''optimizer'', CkOpt \<lparr>param_groups = [PyFloat (1 / 8), PyFloat (5 / 4)],
                                    opt_state = [(''m'', [2])]\<rparr>),
            (''best_MIou'', CkReal 0)]"
  by (simp add: ckpt0_def save_checkpoint_def trainer0_def)

lemma load0:
  "load_checkpoint env0 cfg0 ckpt0 (trainer0\<lparr>epoch := 5, iter := 7\<rparr>) =
     Inr (trainer0\<lparr>optim := \<lparr>param_groups = [PyFloat (1 / 8), PyFloat (5 / 4)],
                               opt_state = [(''m'', [2])]\<rparr>,
                    trace := [LogInfo ''Model loaded successfully'',
                              LogInfo ''Optimizer loaded successfully'',
                              LogInfo ''Resuming training from epoch'']\<rparr>)"
  by (simp add: load_checkpoint_def ckpt0_eq lookup_def cfg0_sel items_def load_state_dict_def
        env0_def trainer0_def Let_def)

theorem load_checkpoint_resume_witness:
  "load_checkpoint env0 cfg0 ckpt0 (trainer0\<lparr>epoch := 5, iter := 7\<rparr>) =
     Inr (trainer0\<lparr>optim := \<lparr>param_groups = [PyFloat (1 / 8), PyFloat (5 / 4)],
                               opt_state = [(''m'', [2])]\<rparr>,
                    trace := [LogInfo ''Model loaded successfully'',
                              LogInfo ''Optimizer loaded successfully'',
                              LogInfo ''Resuming training from epoch'']\<rparr>)
   \<and> train_flag cfg0 \<and> resume_from_checkpoint cfg0
   \<and> lookup ckpt0 ''epoch'' = Some (CkInt 4) \<and> lookup ckpt0 ''iter'' = Some (CkInt 1001)
   \<and> epoch trainer0 = 0 \<and> iter trainer0 = 0"
proof -
  note r = load_checkpoint_resume [OF load0]
  have a: "train_flag cfg0" "resume_from_checkpoint cfg0"
    by (simp_all add: cfg0_sel)
  have b: "lookup ckpt0 ''epoch'' = Some (CkInt 4)" "lookup ckpt0 ''iter'' = Some (CkInt 1001)"
    by (simp_all add: ckpt0_eq lookup_def)
  from r a b have c: "epoch trainer0 = 0 \<and> iter trainer0 = 0"
    by simp
  from load0 a b c show ?thesis
    by (intro conjI) simp_all
qed

section \<open>The shadow parameters around validation\<close>

lemma map_of_only_keys:
  "map_of (only_keys ks p) k = (if k \<in> set ks then map_of p k else None)"
  by (induction p) (auto simp: only_keys_def)

lemma load_into_compose:
  "load_into a (load_into b live) =
     map (\<lambda>(k, v). (k, case map_of a k of
                         Some w \<Rightarrow> w
                       | None \<Rightarrow> (case map_of b k of Some w \<Rightarrow> w | None \<Rightarrow> v))) live"
  by (induction live) (auto simp: load_into_def split: option.splits)

lemma load_into_back:
  assumes "distinct (map fst live)"
  shows "load_into (only_keys ks live) (load_into (only_keys ks p) live) = live"
  unfolding load_into_compose
proof (rule map_idI)
  fix x
  assume x: "x \<in> set live"
  obtain k v where kv: "x = (k, v)" by (cases x)
  from x assms have "map_of live k = Some v" by (simp add: kv)
  then show "(case x of (k, v) \<Rightarrow>
               (k, case map_of (only_keys ks live) k of
                     Some w \<Rightarrow> w
                   | None \<Rightarrow> (case map_of (only_keys ks p) k of Some w \<Rightarrow> w | None \<Rightarrow> v))) = x"
    by (simp add: kv map_of_only_keys)
qed

lemma restore_apply_shadow:
  assumes "distinct (map fst live)"
  shows "snd (restore (fst (apply_shadow e live)) (snd (apply_shadow e live))) = live"
    and "backup (fst (restore (fst (apply_shadow e live)) (snd (apply_shadow e live)))) = []"
  using load_into_back [OF assms] by (simp_all add: restore_def apply_shadow_def)

text \<open>Validation writes to the evaluator, the mode flag and the log only.\<close>

lemma val_loop_state:
  assumes "val_loop env c mode val_idx bs seen self = (r, s)"
  shows "model_state s = model_state self \<and> ema s = ema self \<and> epoch s = epoch self
       \<and> iter s = iter self \<and> best_MIou s = best_MIou self \<and> best_iter s = best_iter self
       \<and> files s = files self \<and> optim s = optim self
       \<and> (\<exists>es. trace s = trace self @ es \<and> EmaRestore \<notin> set es)"
  using assms
proof (induction bs arbitrary: val_idx seen self)
  case Nil
  then show ?case by simp
next
  case (Cons b bs)
  obtain x y where b: "b = (x, y)" by (cases b)
  show ?case
  proof (cases "mode = ''source'' \<and> source_val_iterations c \<le> val_idx")
    case True
    with Cons.prems show ?thesis by (simp add: b)
  next
    case False
    define self1 where "self1 = self\<lparr>trace := trace self @ [Forward False x]\<rparr>"
    define pred where "pred = (case model env c self1 x of Pair a b \<Rightarrow> a | Single t \<Rightarrow> t)"
    show ?thesis
    proof (cases "np_argmax_axis1 pred")
      case (Inl e)
      with Cons.prems False show ?thesis
        by (auto simp: b Let_def self1_def pred_def)
    next
      case (Inr argpred)
      show ?thesis
      proof (cases "0 < val_idx \<and> val_idx mod 300 = 0 \<and> \<not> image_dir_exists env")
        case True
        with Cons.prems False Inr show ?thesis
          by (auto simp: b Let_def self1_def pred_def save_image_def)
      next
        case ok: False
        define self2 where "self2 =
          (if 0 < val_idx \<and> val_idx mod 300 = 0
           then self1\<lparr>trace := trace self1 @ [SaveImage val_idx]\<rparr> else self1)"
        have step: "val_loop env c mode (Suc val_idx) bs True
                      (self2\<lparr>evaluator := evaluator self2 @ [(squeeze_dim1 y, argpred)]\<rparr>) = (r, s)"
          using Cons.prems False Inr ok
          by (auto simp: b Let_def self1_def pred_def self2_def save_image_def split: if_splits)
        from Cons.IH [OF step] show ?thesis
          by (auto simp: self2_def self1_def)
      qed
    qed
  qed
qed

lemma validate_state:
  assumes "validate env c mode self = (r, s)"
  shows "model_state s = model_state self \<and> ema s = ema self \<and> epoch s = epoch self
       \<and> iter s = iter self \<and> best_MIou s = best_MIou self \<and> best_iter s = best_iter self
       \<and> files s = files self \<and> optim s = optim self
       \<and> (\<exists>es. trace s = trace self @ es \<and> EmaRestore \<notin> set es)"
proof -
  define self1 where "self1 = self\<lparr>trace := trace self @ [LogInfo ''Validating''],
                      evaluator := [], training := False\<rparr>"
  show ?thesis
  proof (cases "mode \<noteq> ''target'' \<and> mode \<noteq> ''source''")
    case True
    with assms show ?thesis by (auto simp: validate_def Let_def)
  next
    case False
    define loader where "loader = (if mode = ''target'' then target_val_dataloader env
                              else source_val_dataloader env)"
    obtain r1 s1 where l: "val_loop env c mode 0 loader False self1 = (r1, s1)"
      by (cases "val_loop env c mode 0 loader False self1")
    note v = val_loop_state [OF l]
    from v obtain es where es: "trace s1 = trace self1 @ es" "EmaRestore \<notin> set es"
      by blast
    have tr: "\<exists>es. trace s1 = trace self @ es \<and> EmaRestore \<notin> set es"
      using es by (simp add: self1_def)
    have s: "s = s1 \<or> (\<exists>es'. s = s1\<lparr>trace := trace s1 @ es'\<rparr> \<and> EmaRestore \<notin> set es')"
      using assms False l
      by (auto simp: validate_def Let_def self1_def [symmetric] loader_def [symmetric]
               case_prod_beta split: sum.splits if_splits)
    from s show ?thesis
    proof
      assume "s = s1"
      with v tr show ?thesis by (simp add: self1_def)
    next
      assume "\<exists>es'. s = s1\<lparr>trace := trace s1 @ es'\<rparr> \<and> EmaRestore \<notin> set es'"
      then obtain es' where e': "s = s1\<lparr>trace := trace s1 @ es'\<rparr>" "EmaRestore \<notin> set es'"
        by blast
      have "trace s = trace self @ (LogInfo ''Validating'' # es @ es')"
        using es e' by (simp add: self1_def)
      moreover have "EmaRestore \<notin> set (LogInfo ''Validating'' # es @ es')"
        using es e' by simp
      ultimately have "\<exists>es. trace s = trace self @ es \<and> EmaRestore \<notin> set es"
        by (rule_tac x = "LogInfo ''Validating'' # es @ es'" in exI) simp
      with v e' show ?thesis by (simp add: self1_def)
    qed
  qed
qed


lemma swap_in_sel:
  "ema (swap_in self) = fst (apply_shadow (ema self) (model_state self))"
  "model_state (swap_in self) = snd (apply_shadow (ema self) (model_state self))"
  "trace (swap_in self) = trace self @ [EmaApplyShadow]"
  by (simp_all add: swap_in_def case_prod_beta)

text \<open>
  Claim C4, as amended. When validation returns, the restore step has run after it and
  the live parameters are again what they were before the shadow parameters were put in
  (parameter names being distinct, as in a dictionary), and the backup is empty. When
  validation raises, the error leaves the validation block at once: no restore step runs,
  the shadow parameters stay in place of the live ones, and the live parameters survive
  in the backup only.
\<close>

theorem validation_restores:
  assumes d: "distinct (map fst (model_state self))"
  shows "case validate env c ''target'' (swap_in self) of
           (Inl err, s1) \<Rightarrow>
             validation_phase env c self = (Raise err, s1)
           \<and> model_state s1 = model_state (swap_in self)
           \<and> backup (ema s1) = only_keys (param_keys (ema self)) (model_state self)
           \<and> (\<exists>es. trace s1 = trace self @ EmaApplyShadow # es \<and> EmaRestore \<notin> set es)
         | (Inr m, s1) \<Rightarrow>
             model_state (snd (validation_phase env c self)) = model_state self
           \<and> backup (ema (snd (validation_phase env c self))) = []
           \<and> (\<exists>es es'. trace (snd (validation_phase env c self))
                          = trace self @ EmaApplyShadow # es @ EmaRestore # es'
                      \<and> EmaRestore \<notin> set es)"
proof -
  obtain r s1 where v: "validate env c ''target'' (swap_in self) = (r, s1)"
    by (cases "validate env c ''target'' (swap_in self)")
  note st = validate_state [OF v]
  from st obtain es where es: "trace s1 = trace (swap_in self) @ es" "EmaRestore \<notin> set es"
    by blast
  have ms: "model_state s1 = model_state (swap_in self)" and em: "ema s1 = ema (swap_in self)"
    using st by simp_all
  have tr: "trace s1 = trace self @ EmaApplyShadow # es"
    using es by (simp add: swap_in_sel)
  show ?thesis
  proof (cases r)
    case (Inl err)
    have "validation_phase env c self = (Raise err, s1)"
      by (simp add: validation_phase_def Let_def v Inl)
    moreover have "backup (ema s1) = only_keys (param_keys (ema self)) (model_state self)"
      by (simp add: em swap_in_sel apply_shadow_def)
    moreover have "\<exists>es. trace s1 = trace self @ EmaApplyShadow # es \<and> EmaRestore \<notin> set es"
      using tr es by blast
    ultimately show ?thesis
      using ms by (simp add: v Inl)
  next
    case (Inr m)
    obtain PA MPA MIoU FWIoU where m: "m = (PA, MPA, MIoU, FWIoU)"
      by (cases m) auto
    define s2 where "s2 = snd (validation_phase env c self)"
    have live: "snd (restore (ema s1) (model_state s1)) = model_state self"
      and bk: "backup (fst (restore (ema s1) (model_state s1))) = []"
      using restore_apply_shadow [OF d, of "ema self"] by (simp_all add: ms em swap_in_sel)
    have a: "model_state s2 = model_state self" and b: "backup (ema s2) = []"
      using live bk
      by (auto simp: s2_def validation_phase_def Let_def v Inr m case_prod_beta
            save_checkpoint_def split: option.splits)
    have "\<exists>es'. trace s2 = trace s1 @ EmaRestore # es'"
      by (auto simp: s2_def validation_phase_def Let_def v Inr m case_prod_beta
            save_checkpoint_def split: option.splits)
    then obtain es' where "trace s2 = trace self @ EmaApplyShadow # es @ EmaRestore # es'"
      using tr by auto
    with es have "\<exists>es es'. trace s2 = trace self @ EmaApplyShadow # es @ EmaRestore # es'
                      \<and> EmaRestore \<notin> set es"
      by blast
    with a b show ?thesis
      by (simp add: v Inr s2_def)
  qed
qed

lemma validate_empty:
  "validate env0 cfg0 ''target'' self =
     (Inl UnboundLocalError,
      self\<lparr>trace := trace self @ [LogInfo ''Validating''], evaluator := [], training := False\<rparr>)"
  by (simp add: validate_def Let_def env0_sel)


lemma step200:
  "train_step env0 cfg0 200 batch_s0 batch_t0 trainer0 =
     (Raise UnboundLocalError,
      trainer0\<lparr>iter := 1, training := False,
               model_state := [(''w'', [1 / 2])],
               ema := \<lparr>shadow = [(''w'', [1 / 2])], backup = [(''w'', [1])], decay = 1 / 2,
                       param_keys = [''w'']\<rparr>,
               optim := \<lparr>param_groups = [PyFloat (1 / 4), PyFloat (5 / 2)], opt_state = []\<rparr>,
               trace := [AddScalar ''train/lr'' (PyFloat (1 / 4)) 0,
                         Forward True x_s0, Backward (11 / 10),
                         Forward False x_t0, Forward True hyb0, Backward (11 / 10),
                         Forward False hyb0,
                         OptimizerStep, ZeroGrad, EmaUpdateParams,
                         AddScalar ''train/source_main'' (PyFloat 1) 0,
                         AddScalar ''train/source_aux'' (PyFloat (1 / 10)) 0,
                         LogLosses [(''source_main'', 1), (''source_aux'', 1 / 10)],
                         EmaUpdateBuffer, EmaApplyShadow, LogInfo ''Validating'']\<rparr>)"
  by (simp add: train_step_def Let_def trainer0_def scheduler0 losses0 env0_sel cfg0_sel
        update_params_def update_buffer_def validation_phase_def swap_in_def apply_shadow_def
        only_keys_def load_into_def validate_empty)

text \<open>
  Claim C4 as stated fails at step 200 of the concrete run, whose validation set is empty:
  validation raises, the step ends with that error, no restore step has run, and the
  model holds the shadow parameters \<open>1/2\<close> where the live parameters were \<open>1\<close>.
\<close>

theorem validation_error_skips_restore:
  "fst (train_step env0 cfg0 200 batch_s0 batch_t0 trainer0) = Raise UnboundLocalError
   \<and> model_state trainer0 = [(''w'', [1])]
   \<and> model_state (snd (train_step env0 cfg0 200 batch_s0 batch_t0 trainer0)) = [(''w'', [1 / 2])]
   \<and> backup (ema (snd (train_step env0 cfg0 200 batch_s0 batch_t0 trainer0))) = [(''w'', [1])]
   \<and> EmaApplyShadow \<in> set (trace (snd (train_step env0 cfg0 200 batch_s0 batch_t0 trainer0)))
   \<and> EmaRestore \<notin> set (trace (snd (train_step env0 cfg0 200 batch_s0 batch_t0 trainer0)))"
  unfolding step200 by (simp add: trainer0_def)

lemma env_val_sel:
  "forward env_val tr p n x = Pair logits0 logits0"
  "target_val_dataloader env_val = [batch_t0]"
  "Pixel_Accuracy env_val cm = 0" "Mean_Pixel_Accuracy env_val cm = 0"
  "Mean_Intersection_over_Union env_val cm = 41 / 100"
  "Frequency_Weighted_Intersection_over_Union env_val cm = 0"
  by (simp_all add: env_val_def env0_def)

lemma np_argmax0: "np_argmax_axis1 logits0 = Inr [[[1], [0]]]"
  by (simp add: np_argmax_axis1_def logits0_def ev scores_def)

lemma validate_val:
  "fst (validate env_val cfg0 ''target'' self) = Inr (0, 0, 41 / 100, 0)"
  by (simp add: validate_def Let_def env_val_sel batch_t0_def model_def np_argmax0 cfg0_sel)

theorem validation_restores_witness:
  "distinct (map fst (model_state trainer0))
   \<and> model_state trainer0 = [(''w'', [1])]
   \<and> model_state (swap_in trainer0) = [(''w'', [0])]
   \<and> fst (validate env_val cfg0 ''target'' (swap_in trainer0)) = Inr (0, 0, 41 / 100, 0)
   \<and> model_state (snd (validation_phase env_val cfg0 trainer0)) = [(''w'', [1])]"
proof -
  have d: "distinct (map fst (model_state trainer0))"
    by (simp add: trainer0_def)
  have m: "model_state trainer0 = [(''w'', [1])]"
    by (simp add: trainer0_def)
  have sw: "model_state (swap_in trainer0) = [(''w'', [0])]"
    by (simp add: swap_in_sel apply_shadow_def only_keys_def load_into_def trainer0_def)
  obtain s1 where v: "validate env_val cfg0 ''target'' (swap_in trainer0)
                        = (Inr (0, 0, 41 / 100, 0), s1)"
    using validate_val [of "swap_in trainer0"]
    by (cases "validate env_val cfg0 ''target'' (swap_in trainer0)") simp
  from validation_restores [OF d, of env_val cfg0]
  have "model_state (snd (validation_phase env_val cfg0 trainer0)) = model_state trainer0"
    by (simp add: v)
  with d m sw validate_val [of "swap_in trainer0"] show ?thesis
    by simp
qed


end
